theory Spec2Isabelle
  imports Main "HOL-Library.Word"
begin

unbundle bit_operations_syntax

text \<open>
  A model of the voice chat relay: the server accepts browser connections over WebSocket
  and, for each one, \<open>handleNewClientConnection\<close> opens a connection to the realtime speech
  API and wires the callbacks that pass audio and events between the two sockets. The
  model follows the TypeScript sources (\<open>src/config.ts\<close>, \<open>src/server.ts\<close>,
  \<open>src/openaiHandler.ts\<close>); the JavaScript files beside them are the earlier version of the
  same program, and of them only the server's origin check is modelled as well.

  Each callback is a function from the state it can see (the module-level variables and
  the variables of its connection) and the environment it reads to the new state and the
  list of calls it makes. Sockets, the file system, the clock and the console belong to the
  environment.
\<close>

section \<open>Platform values: buffers and the base64 codec\<close>

text \<open>
  A Node \<open>Buffer\<close> is a sequence of bytes. The handler converts between buffers and
  base64 text with \<open>buf.toString('base64')\<close> and \<open>Buffer.from(str, 'base64')\<close>.
  Both belong to the Node runtime, not to the repository; they are modelled here after
  RFC 4648 (encoder, with padding) and after Node's lenient decoder: characters outside the
  alphabet are skipped, the URL-safe characters \<open>-\<close> and \<open>_\<close> are accepted, and
  decoding stops at the first \<open>=\<close>.
\<close>

type_synonym byte = "8 word"
type_synonym Buffer = "byte list"

definition b64chars :: string where
  "b64chars = ''ABCDEFGHIJKLMNOPQRSTUVWXYZabcdefghijklmnopqrstuvwxyz0123456789+/''"

definition b64char :: "byte \<Rightarrow> char" where
  "b64char w = b64chars ! unat w"

fun index_of :: "'a \<Rightarrow> 'a list \<Rightarrow> nat option" where
  "index_of x [] = None"
| "index_of x (y # ys) =
     (if x = y then Some 0 else map_option Suc (index_of x ys))"

definition unbase64 :: "char \<Rightarrow> byte option" where
  "unbase64 c =
     (if c = CHR ''-'' then Some 62
      else if c = CHR ''_'' then Some 63
      else map_option of_nat (index_of c b64chars))"

text \<open>The four 6-bit groups of a 3-byte block, and the three bytes of a 4-group block.\<close>

definition sextet1 :: "byte \<Rightarrow> byte" where
  "sextet1 a = drop_bit 2 a"

definition sextet2 :: "byte \<Rightarrow> byte \<Rightarrow> byte" where
  "sextet2 a b = push_bit 4 (a AND 3) OR drop_bit 4 b"

definition sextet3 :: "byte \<Rightarrow> byte \<Rightarrow> byte" where
  "sextet3 b c = push_bit 2 (b AND 15) OR drop_bit 6 c"

definition sextet4 :: "byte \<Rightarrow> byte" where
  "sextet4 c = c AND 63"

definition octet1 :: "byte \<Rightarrow> byte \<Rightarrow> byte" where
  "octet1 s1 s2 = push_bit 2 s1 OR drop_bit 4 s2"

definition octet2 :: "byte \<Rightarrow> byte \<Rightarrow> byte" where
  "octet2 s2 s3 = push_bit 4 (s2 AND 15) OR drop_bit 2 s3"

definition octet3 :: "byte \<Rightarrow> byte \<Rightarrow> byte" where
  "octet3 s3 s4 = push_bit 6 (s3 AND 3) OR s4"

fun toString_base64 :: "Buffer \<Rightarrow> string" where
  "toString_base64 (a # b # c # rest) =
     [b64char (sextet1 a), b64char (sextet2 a b), b64char (sextet3 b c), b64char (sextet4 c)]
       @ toString_base64 rest"
| "toString_base64 [a, b] =
     [b64char (sextet1 a), b64char (sextet2 a b), b64char (sextet3 b 0), CHR ''='']"
| "toString_base64 [a] =
     [b64char (sextet1 a), b64char (sextet2 a 0), CHR ''='', CHR ''='']"
| "toString_base64 [] = []"

fun decode_sextets :: "byte list \<Rightarrow> Buffer" where
  "decode_sextets (s1 # s2 # s3 # s4 # rest) =
     [octet1 s1 s2, octet2 s2 s3, octet3 s3 s4] @ decode_sextets rest"
| "decode_sextets [s1, s2, s3] = [octet1 s1 s2, octet2 s2 s3]"
| "decode_sextets [s1, s2] = [octet1 s1 s2]"
| "decode_sextets [s1] = []"
| "decode_sextets [] = []"

definition Buffer_from_base64 :: "string \<Rightarrow> Buffer" where
  "Buffer_from_base64 s =
     decode_sextets (List.map_filter unbase64 (takeWhile (\<lambda>c. c \<noteq> CHR ''='') s))"

section \<open>Configuration (\<open>src/config.ts\<close>)\<close>

text \<open>
  \<open>process.env\<close>, after \<open>dotenv.config()\<close>, is a map from variable names to strings.
  A missing or empty \<open>OPENAI_API_KEY\<close> ends the process (\<open>process.exit(1)\<close>): the
  value \<open>None\<close>. Only the fields the connection handler reads are modelled.
\<close>

record OpenAIConfig =
  MODEL :: string
  BASE_URL :: string
  WEBSOCKET_URL_WITH_MODEL :: string

record config =
  OPENAI_API_KEY :: string
  OPENAI_CONFIG :: OpenAIConfig

definition OPENAI_CONFIG_BASE :: OpenAIConfig where
  "OPENAI_CONFIG_BASE =
     \<lparr>MODEL = ''gpt-4o-mini-realtime-preview-2024-12-17'',
      BASE_URL = ''wss://api.openai.com/v1/realtime'',
      WEBSOCKET_URL_WITH_MODEL = []\<rparr>"

definition load_config :: "(string \<rightharpoonup> string) \<Rightarrow> config option" where
  "load_config process_env =
     (case process_env ''OPENAI_API_KEY'' of
        None \<Rightarrow> None
      | Some key \<Rightarrow>
          if key = [] then None
          else Some \<lparr>OPENAI_API_KEY = key,
                     OPENAI_CONFIG = OPENAI_CONFIG_BASE
                       \<lparr>WEBSOCKET_URL_WITH_MODEL :=
                          BASE_URL OPENAI_CONFIG_BASE @ ''?model='' @ MODEL OPENAI_CONFIG_BASE\<rparr>\<rparr>)"

section \<open>Messages, log entries and effects (\<open>src/openaiHandler.ts\<close>)\<close>

datatype readyState = CONNECTING | OPEN | CLOSING | CLOSED

text \<open>The interfaces \<open>ContentPart\<close>, \<open>OutputItem\<close> and the event interfaces, field by field;
  an optional field is an \<open>option\<close>.\<close>

record ContentPart =
  part_type :: string
  part_text :: "string option"
  part_transcript :: "string option"

record OutputItem =
  item_type :: string
  item_role :: "string option"
  item_content :: "ContentPart list option"

record ResponseInfo =
  response_id :: "string option"
  response_status :: "string option"
  response_output :: "OutputItem list option"

record SessionInfo =
  session_id :: "string option"

text \<open>The type \<open>string | { message?: string; code?: string; event_id?: string }\<close> of the
  \<open>message\<close> and \<open>error\<close> fields of an \<open>ErrorEvent\<close>. An object carries its JSON text,
  which is what \<open>JSON.stringify\<close> returns for it.\<close>

datatype ErrorDetail =
    ErrorString string
  | ErrorObject (detail_message: "string option") (detail_code: "string option")
      (detail_event_id: "string option") (detail_json: string)

text \<open>The union \<open>OpenAIMessage\<close> as one record with every field of its members;
  \<open>msg_json\<close> is the JSON text of the whole event.\<close>

record OpenAIMessage =
  msg_type :: string
  msg_event_id :: "string option"
  msg_session :: "SessionInfo option"
  msg_response :: "ResponseInfo option"
  msg_delta :: "string option"
  msg_message :: "ErrorDetail option"
  msg_error :: "ErrorDetail option"
  msg_code :: "string option"
  msg_json :: string

text \<open>Values stored in log entries and in the objects handed to \<open>JSON.stringify\<close>.\<close>

datatype jsvalue =
    JUndefined
  | JNull
  | JString string
  | JNumber nat
  | JObject "(string \<times> jsvalue) list"
  | JMessage OpenAIMessage

record LogEntry =
  timestamp :: nat
  entry_type :: string
  entry_props :: "(string \<times> jsvalue) list"

datatype console_level = console_log | console_warn | console_error

datatype frame = BinaryFrame Buffer | JsonFrame "(string \<times> jsvalue) list"

datatype file_data = FileBytes Buffer | FileText string

text \<open>
  What a callback does to the outside world, in order. Each constructor is a call:
  \<open>new WebSocket(url, {headers})\<close>, \<open>send\<close> and \<open>close\<close> on either socket,
  \<open>fs.writeFile\<close> (its path given as the arguments of \<open>path.join\<close>), and console output
  (level and the fixed part of the message, without the log prefix). A call that throws
  is listed as well, since it was made; what its \<open>catch\<close> block does comes right after
  it, and the call itself has then had no effect.
\<close>

datatype effect =
    NewWebSocket string "(string \<times> string) list"
  | OpenAI_send frame
  | OpenAI_close nat string
  | Client_send frame
  | Client_close nat string
  | Fs_writeFile "string list" file_data
  | Console console_level string

section \<open>State\<close>

text \<open>Module-level variables of \<open>openaiHandler.ts\<close>: one copy for the whole process.\<close>

record globals =
  conversationLog :: "LogEntry list"
  currentResponseAudioChunks :: "Buffer list"
  currentResponseId :: "string option"

text \<open>Variables local to one call of \<open>handleNewClientConnection\<close>, captured by its
  callbacks. \<open>wsOpenAI\<close> is either \<open>null\<close> or the one upstream socket of the call.\<close>

datatype WebSocket = UpstreamSocket

record conn =
  clientIp :: "string option"
  wsOpenAI :: "WebSocket option"
  clientClosed :: bool
  openAIConnected :: bool
  openAISessionId :: "string option"
  turnInProgress :: bool

text \<open>
  What a callback reads from its environment: the clock (one reading per callback, as
  milliseconds and as ISO text), the \<open>readyState\<close> of the two sockets, and whether the
  guarded platform call of the callback (\<open>new WebSocket\<close>, or \<open>wsOpenAI.send\<close> inside its
  own \<open>try\<close>) throws. No callback reads a socket's \<open>readyState\<close> after closing that
  socket, so one value per callback is enough. The values are not tied to earlier calls:
  a statement about every environment covers every behaviour of the socket library, and
  also states the library never produces (it emits \<open>error\<close> for a socket only once that
  socket has left OPEN); a run on concrete inputs describes the program only when its
  environments are ones the library can produce.

  Two platform calls throw depending on their arguments, and are modelled below:
  \<open>close\<close> on a reason that is too long (\<open>close_throws\<close>) and \<open>fs.writeFile\<close> on a path
  with a NUL character (\<open>writeFile_throws\<close>). \<open>send\<close> on a socket just found OPEN and
  \<open>Buffer.concat\<close> on a list of buffers do not throw. Events are read at the type their
  interface declares.
\<close>

record env =
  Date_now :: nat
  Date_iso :: string
  client_readyState :: readyState
  openai_readyState :: readyState
  platform_throws :: bool

type_synonym result = "globals \<times> conn \<times> effect list"

text \<open>How a block of statements ends: normally, or with an exception thrown after the
  state changes and effects made so far.\<close>

datatype outcome = Returned result | Threw result

section \<open>Small helpers\<close>

text \<open>JavaScript truthiness of a \<open>string | undefined | null\<close>: only a non-empty string.\<close>

definition truthy :: "string option \<Rightarrow> bool" where
  "truthy s = (case s of None \<Rightarrow> False | Some t \<Rightarrow> t \<noteq> [])"

text \<open>\<open>a || b\<close> on such a value and a string default.\<close>

definition or_else :: "string option \<Rightarrow> string \<Rightarrow> string" where
  "or_else s d = (case s of None \<Rightarrow> d | Some t \<Rightarrow> if t = [] then d else t)"

text \<open>A number in a template string: its decimal digits.\<close>

fun decimal :: "nat \<Rightarrow> string" where
  "decimal n =
     (if n < 10 then [''0123456789'' ! n]
      else decimal (n div 10) @ [''0123456789'' ! (n mod 10)])"

declare decimal.simps [simp del]

text \<open>\<open>str.replace(/:/g, '-')\<close> and \<open>str.replace(/\..+/, '')\<close>: the second removes, from
  the first dot that is followed by a character other than a line break, up to the end of
  that line.\<close>

definition replace_colons :: "string \<Rightarrow> string" where
  "replace_colons s = map (\<lambda>c. if c = CHR '':'' then CHR ''-'' else c) s"

definition line_terminator :: "char \<Rightarrow> bool" where
  "line_terminator c = (c = CHR 0x0A \<or> c = CHR 0x0D)"

fun strip_fraction :: "string \<Rightarrow> string" where
  "strip_fraction [] = []"
| "strip_fraction [c] = [c]"
| "strip_fraction (c # d # cs) =
     (if c = CHR ''.'' \<and> \<not> line_terminator d
      then dropWhile (\<lambda>x. \<not> line_terminator x) cs
      else c # strip_fraction (d # cs))"

definition null_or_string :: "string option \<Rightarrow> jsvalue" where
  "null_or_string s = (case s of None \<Rightarrow> JNull | Some t \<Rightarrow> JString t)"

definition undefined_or_string :: "string option \<Rightarrow> jsvalue" where
  "undefined_or_string s = (case s of None \<Rightarrow> JUndefined | Some t \<Rightarrow> JString t)"

definition log_push :: "LogEntry \<Rightarrow> globals \<Rightarrow> globals" where
  "log_push entry g = g\<lparr>conversationLog := conversationLog g @ [entry]\<rparr>"

text \<open>The two output directories, as the arguments of \<open>path.join\<close>.\<close>

definition transcriptsDir :: "string list" where
  "transcriptsDir = [''__dirname'', ''..'', ''./openai_text_output'']"

definition audioSaveDir :: "string list" where
  "audioSaveDir = [''__dirname'', ''..'', ''openai_audio_output'']"

text \<open>A JavaScript string is modelled as the list of its UTF-16 code units, all of them
  below U+0100. \<open>Buffer.byteLength\<close> counts the bytes of its UTF-8 encoding: one for a code
  unit below U+0080, two for the others.\<close>

definition byteLength :: "string \<Rightarrow> nat" where
  "byteLength s = sum_list (map (\<lambda>ch. if of_char ch < (128 :: nat) then 1 else 2) s)"

text \<open>\<open>close(code, reason)\<close> of the \<open>ws\<close> library on an OPEN socket: the reason travels in
  a control frame, whose payload holds at most 125 bytes, two of them the code. With a
  longer reason the call throws a \<open>RangeError\<close> before anything is sent: no close frame
  leaves and the connection underneath stays open. On a CONNECTING socket the call aborts
  the handshake and does not look at the reason. The handler only uses valid codes.\<close>

definition close_throws :: "string \<Rightarrow> bool" where
  "close_throws reason = (123 < byteLength reason)"

text \<open>\<open>fs.writeFile(path, data, callback)\<close> checks its path before it starts the write and
  throws when the path contains a NUL character; the file is then not written and the
  callback never runs. Every other failure is reported to the callback later.\<close>

definition writeFile_throws :: "string list \<Rightarrow> bool" where
  "writeFile_throws path = list_ex (\<lambda>part. CHR 0x00 \<in> set part) path"

section \<open>The connection handler: utility functions\<close>

text \<open>\<open>safeCloseClient(wsClient, code, reason)\<close>: calls \<open>close\<close> only on an OPEN socket, and
  marks the client closed in every case. When \<open>close\<close> throws, the \<open>catch\<close> block logs the
  error, the socket has not been closed, and the client is marked closed all the same.\<close>

definition safeCloseClient :: "env \<Rightarrow> nat \<Rightarrow> string \<Rightarrow> conn \<Rightarrow> conn \<times> effect list" where
  "safeCloseClient e code reason c =
     (c\<lparr>clientClosed := True\<rparr>,
      if client_readyState e = OPEN
      then [Console console_log ''Closing client connection'', Client_close code reason]
           @ (if close_throws reason then [Console console_error ''Error closing client WS:'']
              else [])
      else [])"

text \<open>\<open>safeCloseOpenAI(wsOpenAI, code, reason)\<close>: the argument is the current value of the
  variable \<open>wsOpenAI\<close>; \<open>close\<close> is called when the socket is OPEN or CONNECTING, and the
  variable is set to \<open>null\<close> in every case, also when \<open>close\<close> has thrown and the \<open>catch\<close>
  block has logged it. On a CONNECTING socket the library emits \<open>error\<close> from within
  \<open>close\<close>; every caller has set \<open>clientClosed\<close> by then, so that the \<open>error\<close> callback
  returns at once.\<close>

definition safeCloseOpenAI :: "env \<Rightarrow> nat \<Rightarrow> string \<Rightarrow> conn \<Rightarrow> conn \<times> effect list" where
  "safeCloseOpenAI e code reason c =
     (c\<lparr>openAIConnected := False, wsOpenAI := None\<rparr>,
      if wsOpenAI c \<noteq> None \<and> (openai_readyState e = OPEN \<or> openai_readyState e = CONNECTING)
      then [Console console_log ''Closing OpenAI connection'', OpenAI_close code reason]
           @ (if openai_readyState e = OPEN \<and> close_throws reason
              then [Console console_error ''Error closing OpenAI WS:''] else [])
      else [])"

text \<open>Both closes in a row, as the error paths call them.\<close>

definition close_both :: "env \<Rightarrow> nat \<Rightarrow> string \<Rightarrow> string \<Rightarrow> conn \<Rightarrow> conn \<times> effect list" where
  "close_both e code client_reason openai_reason c =
     (case safeCloseClient e code client_reason c of
        (c1, fx1) \<Rightarrow>
          (case safeCloseOpenAI e code openai_reason c1 of
             (c2, fx2) \<Rightarrow> (c2, fx1 @ fx2)))"

section \<open>Upstream socket: \<open>open\<close>\<close>

definition sessionUpdateEvent :: "nat \<Rightarrow> (string \<times> jsvalue) list" where
  "sessionUpdateEvent now =
     [(''type'', JString ''session.update''),
      (''session'', JObject
         [(''instructions'',
             JString ''You are a helpful voice assistant. Respond ONLY in English.''),
          (''output_audio_format'', JString ''pcm16''),
          (''input_audio_format'', JString ''pcm16''),
          (''turn_detection'', JObject [(''type'', JString ''server_vad'')]),
          (''voice'', JString ''shimmer'')]),
      (''event_id'', JString (''session_config_'' @ decimal now))]"

definition on_openai_open :: "env \<Rightarrow> globals \<Rightarrow> conn \<Rightarrow> result" where
  "on_openai_open e g c =
     (if clientClosed c then
        (case safeCloseOpenAI e 1000 ''Client disconnected during OpenAI connect'' c of
           (c1, fx) \<Rightarrow>
             (g, c1,
              Console console_log
                ''Client disconnected before OpenAI connection opened. Closing OpenAI.'' # fx))
      else
        (let c1 = c\<lparr>openAIConnected := True\<rparr>;
             connected = Console console_log ''Connected to OpenAI Realtime API.''
         in if wsOpenAI c1 \<noteq> None \<and> openai_readyState e = OPEN then
              (if platform_throws e then
                 (case close_both e 1011 ''Failed to configure OpenAI session''
                         ''Failed to send session config'' c1 of
                    (c2, fx) \<Rightarrow>
                      (g, c2,
                       [connected,
                        OpenAI_send (JsonFrame (sessionUpdateEvent (Date_now e))),
                        Console console_error ''Error sending session config:''] @ fx))
               else
                 (g, c1,
                  [connected,
                   OpenAI_send (JsonFrame (sessionUpdateEvent (Date_now e))),
                   Console console_log ''Sent session configuration to OpenAI'']))
            else (g, c1, [connected])))"

section \<open>Upstream socket: \<open>message\<close>, one definition per \<open>case\<close> of the switch\<close>

definition send_if_open :: "env \<Rightarrow> frame \<Rightarrow> effect list" where
  "send_if_open e f = (if client_readyState e = OPEN then [Client_send f] else [])"

definition case_session_created :: "env \<Rightarrow> OpenAIMessage \<Rightarrow> globals \<Rightarrow> conn \<Rightarrow> result" where
  "case_session_created e data g c =
     (let sid = (case msg_session data of None \<Rightarrow> None | Some s \<Rightarrow> session_id s)
      in (log_push \<lparr>timestamp = Date_now e, entry_type = ''session_created'',
                     entry_props = [(''sessionId'', null_or_string sid)]\<rparr> g,
          c\<lparr>openAISessionId := sid\<rparr>,
          Console console_log ''OpenAI session created'' #
          send_if_open e (JsonFrame [(''type'', JString ''event''),
                                     (''name'', JString ''AIConnected''),
                                     (''sessionId'', null_or_string sid)])))"

definition case_session_closed :: "env \<Rightarrow> globals \<Rightarrow> conn \<Rightarrow> result" where
  "case_session_closed e g c =
     (case close_both e 1000 ''OpenAI session closed'' ''Session closed by server'' c of
        (c1, fx) \<Rightarrow>
          (log_push \<lparr>timestamp = Date_now e, entry_type = ''openai_closed_by_server'',
                     entry_props = []\<rparr> g,
           c1,
           Console console_log ''OpenAI session closed by server.'' # fx))"

definition case_response_created :: "env \<Rightarrow> OpenAIMessage \<Rightarrow> globals \<Rightarrow> conn \<Rightarrow> result" where
  "case_response_created e data g c =
     (let rid = (case msg_response data of None \<Rightarrow> None | Some r \<Rightarrow> response_id r)
      in (g\<lparr>currentResponseId := Some (or_else rid (''resp_'' @ decimal (Date_now e))),
            currentResponseAudioChunks := []\<rparr>,
          c\<lparr>turnInProgress := True\<rparr>,
          Console console_log ''OpenAI response generation started.'' #
          send_if_open e (JsonFrame [(''type'', JString ''event''),
                                     (''name'', JString ''AIResponseStart'')])))"

text \<open>Shared by the \<open>response.audio.delta\<close> case and by the \<open>catch\<close> branch: keep the chunk
  when a response id is current, then pass it to the client when its socket is OPEN.\<close>

definition accumulate_and_forward ::
  "env \<Rightarrow> Buffer \<Rightarrow> string \<Rightarrow> globals \<Rightarrow> globals \<times> effect list" where
  "accumulate_and_forward e audioBuffer warning g =
     (if truthy (currentResponseId g)
      then (g\<lparr>currentResponseAudioChunks := currentResponseAudioChunks g @ [audioBuffer]\<rparr>,
            send_if_open e (BinaryFrame audioBuffer))
      else (g, Console console_warn warning # send_if_open e (BinaryFrame audioBuffer)))"

definition case_response_audio_delta ::
  "env \<Rightarrow> OpenAIMessage \<Rightarrow> globals \<Rightarrow> conn \<Rightarrow> result" where
  "case_response_audio_delta e data g c =
     (case msg_delta data of
        None \<Rightarrow> (g, c, [])
      | Some delta \<Rightarrow>
          if delta = [] then (g, c, [])
          else
            (case accumulate_and_forward e (Buffer_from_base64 delta)
                    ''Received audio delta but no current response ID.'' g of
               (g1, fx) \<Rightarrow>
                 (g1, c, Console console_log ''Received OpenAI audio chunk (PCM16)'' # fx)))"

definition case_response_text_delta ::
  "env \<Rightarrow> OpenAIMessage \<Rightarrow> globals \<Rightarrow> conn \<Rightarrow> result" where
  "case_response_text_delta e data g c =
     (case msg_delta data of
        None \<Rightarrow> (g, c, [])
      | Some delta \<Rightarrow>
          if delta = [] then (g, c, [])
          else (g, c, send_if_open e (JsonFrame [(''type'', JString ''textDelta''),
                                                 (''text'', JString delta)])))"

text \<open>The final assistant text of a \<open>response.done\<close> event: the first output item of type
  \<open>message\<close>; in its content the first \<open>output_text\<close> part when that has a non-empty text,
  otherwise the first \<open>audio\<close> part with a non-empty transcript; the empty string when
  nothing is found.\<close>

definition text_of_content :: "ContentPart list \<Rightarrow> string" where
  "text_of_content content =
     (let from_audio =
            (case List.find (\<lambda>part. part_type part = ''audio'' \<and> truthy (part_transcript part))
                    content of
               None \<Rightarrow> []
             | Some audioPart \<Rightarrow> or_else (part_transcript audioPart) [])
      in case List.find (\<lambda>part. part_type part = ''output_text'') content of
           None \<Rightarrow> from_audio
         | Some textPart \<Rightarrow>
             (case part_text textPart of
                None \<Rightarrow> from_audio
              | Some t \<Rightarrow> if t = [] then from_audio else t))"

definition finalAssistantText :: "OpenAIMessage \<Rightarrow> string" where
  "finalAssistantText data =
     (case msg_response data of
        None \<Rightarrow> []
      | Some response \<Rightarrow>
          (case response_output response of
             None \<Rightarrow> []
           | Some output \<Rightarrow>
               (case List.find (\<lambda>item. item_type item = ''message'') output of
                  None \<Rightarrow> []
                | Some outputMessage \<Rightarrow>
                    (case item_content outputMessage of
                       None \<Rightarrow> []
                     | Some content \<Rightarrow> text_of_content content))))"

definition transcript_timestamp :: "string \<Rightarrow> string" where
  "transcript_timestamp isoString = strip_fraction (replace_colons isoString)"

text \<open>The audio of the response, inside its own \<open>try\<close>: a throwing \<open>fs.writeFile\<close> is
  caught there and logged.\<close>

definition save_audio :: "string \<Rightarrow> Buffer list \<Rightarrow> effect list" where
  "save_audio responseIdToSave chunks =
     (if length chunks > 0 then
        (let filename = audioSaveDir @ [responseIdToSave @ ''_backend.raw'']
         in Fs_writeFile filename (FileBytes (concat chunks)) #
            (if writeFile_throws filename
             then [Console console_error ''Error concatenating audio chunks for saving:'']
             else []))
      else [Console console_log ''No audio chunks received for response to save.''])"

definition transcriptFilePath :: "env \<Rightarrow> string \<Rightarrow> string list" where
  "transcriptFilePath e responseIdToSave =
     transcriptsDir @
       [transcript_timestamp (Date_iso e) @ ''_'' @ responseIdToSave @ ''_transcript.txt'']"

text \<open>The \<open>response.done\<close> case. The transcript write is not inside a \<open>try\<close> of its own:
  when it throws, the case is left at that point, after the log entry and before
  \<open>AIResponseEnd\<close> is sent.\<close>

definition case_response_done :: "env \<Rightarrow> OpenAIMessage \<Rightarrow> globals \<Rightarrow> conn \<Rightarrow> outcome" where
  "case_response_done e data g c =
     (let responseIdToSave =
            or_else (currentResponseId g) (''resp_done_'' @ decimal (Date_now e));
          started = Console console_log ''OpenAI response generation finished.'' #
                    save_audio responseIdToSave (currentResponseAudioChunks g);
          g1 = g\<lparr>currentResponseAudioChunks := [], currentResponseId := None\<rparr>;
          c1 = c\<lparr>turnInProgress := False\<rparr>;
          final = finalAssistantText data;
          ended = send_if_open e (JsonFrame [(''type'', JString ''event''),
                                             (''name'', JString ''AIResponseEnd''),
                                             (''finalText'', JString final)])
      in if final \<noteq> [] then
           (let g2 = log_push \<lparr>timestamp = Date_now e, entry_type = ''assistant_text'',
                                entry_props = [(''text'', JString final)]\<rparr> g1;
                written = started @
                  [Console console_log ''Extracted Final Assistant Text'',
                   Fs_writeFile (transcriptFilePath e responseIdToSave) (FileText final)]
            in if writeFile_throws (transcriptFilePath e responseIdToSave)
               then Threw (g2, c1, written)
               else Returned (g2, c1, written @ ended))
         else
           Returned
             (log_push \<lparr>timestamp = Date_now e, entry_type = ''assistant_text'',
                         entry_props = [(''text'', JString ''[No text extracted]'')]\<rparr> g1,
              c1,
              started @
                [Console console_warn
                   ''Could not extract final assistant text from response.done event.'']
                @ ended))"

definition case_speech_event :: "env \<Rightarrow> string \<Rightarrow> string \<Rightarrow> globals \<Rightarrow> conn \<Rightarrow> result" where
  "case_speech_event e note name g c =
     (g, c, Console console_log note #
            send_if_open e (JsonFrame [(''type'', JString ''event''), (''name'', JString name)]))"

text \<open>The \<open>error\<close> and \<open>invalid_request_error\<close> cases. \<open>msgProp\<close> is
  \<open>errorEvent.message || errorEvent.error\<close>; the message text is that string, or the
  \<open>message\<close> field of that object, or else the JSON text of \<open>msgProp || errorEvent\<close>.\<close>

definition truthy_detail :: "ErrorDetail option \<Rightarrow> bool" where
  "truthy_detail d =
     (case d of None \<Rightarrow> False | Some (ErrorString s) \<Rightarrow> s \<noteq> [] | Some (ErrorObject m k i j) \<Rightarrow> True)"

definition errMsg :: "OpenAIMessage \<Rightarrow> string" where
  "errMsg errorEvent =
     (let msgProp = (if truthy_detail (msg_message errorEvent)
                     then msg_message errorEvent else msg_error errorEvent)
      in case msgProp of
           Some (ErrorString s) \<Rightarrow> s
         | Some (ErrorObject m k i j) \<Rightarrow> (case m of Some s \<Rightarrow> s | None \<Rightarrow> j)
         | None \<Rightarrow> msg_json errorEvent)"

definition errCode :: "OpenAIMessage \<Rightarrow> string" where
  "errCode errorEvent =
     (if truthy (msg_code errorEvent) then or_else (msg_code errorEvent) []
      else case msg_error errorEvent of
             Some (ErrorObject m k i j) \<Rightarrow> or_else k ''UnknownCode''
           | _ \<Rightarrow> ''UnknownCode'')"

definition case_error :: "env \<Rightarrow> OpenAIMessage \<Rightarrow> globals \<Rightarrow> conn \<Rightarrow> result" where
  "case_error e errorEvent g c =
     (case close_both e 1011 (''OpenAI Error: '' @ take 100 (errMsg errorEvent))
             (''Reported error: '' @ take 100 (errMsg errorEvent)) c of
        (c1, fx) \<Rightarrow>
          (log_push \<lparr>timestamp = Date_now e, entry_type = ''openai_error'',
                     entry_props = [(''code'', JString (errCode errorEvent)),
                                    (''message'', JString (errMsg errorEvent)),
                                    (''rawData'', JMessage errorEvent)]\<rparr> g,
           c1,
           [Console console_error ''RAW Error Data from OpenAI:'',
            Console console_error ''Parsed Error from OpenAI''] @ fx))"

text \<open>The \<open>catch\<close> block of the message callback, entered when \<open>JSON.parse\<close> throws and
  when a case of the switch throws: a non-empty buffer is taken for an audio chunk,
  whatever the exception was.\<close>

definition catch_non_json :: "env \<Rightarrow> Buffer \<Rightarrow> globals \<Rightarrow> conn \<Rightarrow> result" where
  "catch_non_json e messageBuffer g c =
     (if length messageBuffer > 0 then
        (case accumulate_and_forward e messageBuffer
                ''Received assumed audio delta but no current response ID.'' g of
           (g1, fx) \<Rightarrow>
             (g1, c,
              [Console console_warn ''Received non-JSON message from OpenAI. Assuming audio delta?'',
               Console console_log ''Assuming non-JSON is audio chunk (PCM16)''] @ fx))
      else (g, c, [Console console_error ''Error processing message from OpenAI:'',
                   Console console_error ''Original OpenAI message content:'']))"

definition ignored_types :: "string list" where
  "ignored_types =
     [''input_audio_buffer.committed'', ''conversation.item.created'',
      ''response.output_item.added'', ''response.content_part.added'',
      ''response.audio.done'', ''response.text.done'', ''response.audio_transcript.done'',
      ''response.content_part.done'', ''response.output_item.done'', ''rate_limits.updated'']"

text \<open>The \<open>switch (data.type)\<close>: the type string selects a case.\<close>

datatype message_kind =
    SessionCreated | SessionUpdated | SessionClosed
  | ResponseCreated | ResponseAudioDelta | ResponseTextDelta | ResponseAudioTranscriptDelta
  | ResponseDone | SpeechStarted | SpeechStopped
  | Ignored | ErrorReported | Unhandled

definition kind_of :: "string \<Rightarrow> message_kind" where
  "kind_of t =
     (if t = ''session.created'' then SessionCreated
      else if t = ''session.updated'' then SessionUpdated
      else if t = ''session.closed'' then SessionClosed
      else if t = ''response.created'' then ResponseCreated
      else if t = ''response.audio.delta'' then ResponseAudioDelta
      else if t = ''response.text.delta'' then ResponseTextDelta
      else if t = ''response.audio_transcript.delta'' then ResponseAudioTranscriptDelta
      else if t = ''response.done'' then ResponseDone
      else if t = ''input_audio_buffer.speech_started'' then SpeechStarted
      else if t = ''input_audio_buffer.speech_stopped'' then SpeechStopped
      else if t \<in> set ignored_types then Ignored
      else if t = ''error'' \<or> t = ''invalid_request_error'' then ErrorReported
      else Unhandled)"

definition dispatch :: "env \<Rightarrow> OpenAIMessage \<Rightarrow> globals \<Rightarrow> conn \<Rightarrow> outcome" where
  "dispatch e data g c =
     (case kind_of (msg_type data) of
        SessionCreated \<Rightarrow> Returned (case_session_created e data g c)
      | SessionUpdated \<Rightarrow> Returned (g, c, [Console console_log ''OpenAI session updated.''])
      | SessionClosed \<Rightarrow> Returned (case_session_closed e g c)
      | ResponseCreated \<Rightarrow> Returned (case_response_created e data g c)
      | ResponseAudioDelta \<Rightarrow> Returned (case_response_audio_delta e data g c)
      | ResponseTextDelta \<Rightarrow> Returned (case_response_text_delta e data g c)
      | ResponseAudioTranscriptDelta \<Rightarrow> Returned (g, c, [])
      | ResponseDone \<Rightarrow> case_response_done e data g c
      | SpeechStarted \<Rightarrow>
          Returned (case_speech_event e ''OpenAI detected speech start.'' ''AISpeechDetected'' g c)
      | SpeechStopped \<Rightarrow>
          Returned (case_speech_event e ''OpenAI detected speech stop.'' ''AISpeechEnded'' g c)
      | Ignored \<Rightarrow> Returned (g, c, [])
      | ErrorReported \<Rightarrow> Returned (case_error e data g c)
      | Unhandled \<Rightarrow>
          Returned (g, c, [Console console_warn ''Received unhandled message type from OpenAI'']))"

text \<open>The \<open>try\<close> around the switch: an exception thrown by a case is caught by the same
  \<open>catch\<close> block as a failing \<open>JSON.parse\<close>, which then runs on the state the case has
  left, its effects following those of the case.\<close>

definition try_catch :: "env \<Rightarrow> Buffer \<Rightarrow> outcome \<Rightarrow> result" where
  "try_catch e messageBuffer out =
     (case out of
        Returned r \<Rightarrow> r
      | Threw (g1, c1, fx1) \<Rightarrow>
          (case catch_non_json e messageBuffer g1 c1 of
             (g2, c2, fx2) \<Rightarrow> (g2, c2, fx1 @ fx2)))"

text \<open>The \<open>message\<close> callback of the upstream socket. The event carries the raw buffer and
  what \<open>JSON.parse\<close> makes of it (\<open>None\<close> when it throws), read at the type
  \<open>OpenAIMessage\<close> to which the callback casts it.\<close>

definition on_openai_message ::
  "env \<Rightarrow> Buffer \<Rightarrow> OpenAIMessage option \<Rightarrow> globals \<Rightarrow> conn \<Rightarrow> result" where
  "on_openai_message e messageBuffer parsed g c =
     (if clientClosed c \<or> \<not> openAIConnected c \<or> wsOpenAI c = None then (g, c, [])
      else case parsed of
             None \<Rightarrow> catch_non_json e messageBuffer g c
           | Some data \<Rightarrow> try_catch e messageBuffer (dispatch e data g c))"

section \<open>Upstream socket: \<open>error\<close> and \<open>close\<close>\<close>

definition on_openai_error :: "env \<Rightarrow> string \<Rightarrow> globals \<Rightarrow> conn \<Rightarrow> result" where
  "on_openai_error e message g c =
     (if clientClosed c \<or> wsOpenAI c = None then (g, c, [])
      else
        (case close_both e 1011 ''OpenAI connection error'' ''WebSocket error'' c of
           (c1, fx) \<Rightarrow>
             (log_push \<lparr>timestamp = Date_now e, entry_type = ''openai_ws_error'',
                        entry_props = [(''message'', JString message)]\<rparr> g,
              c1,
              Console console_error ''OpenAI WebSocket Error:'' # fx)))"

definition on_openai_close :: "env \<Rightarrow> nat \<Rightarrow> string \<Rightarrow> globals \<Rightarrow> conn \<Rightarrow> result" where
  "on_openai_close e code reasonString g c =
     (if \<not> openAIConnected c \<and> wsOpenAI c = None then (g, c, [])
      else
        (case safeCloseClient e 1000
                (''OpenAI session ended ('' @ decimal code @ '')'') c of
           (c1, fx) \<Rightarrow>
             (log_push \<lparr>timestamp = Date_now e, entry_type = ''openai_closed'',
                        entry_props = [(''code'', JNumber code),
                                       (''reason'', JString reasonString)]\<rparr> g,
              c1\<lparr>openAIConnected := False, wsOpenAI := None\<rparr>,
              Console console_log ''OpenAI WebSocket closed'' # fx)))"

section \<open>Client socket: \<open>message\<close>, \<open>close\<close>, \<open>error\<close>\<close>

text \<open>The data of a client frame (\<open>WebSocket.RawData\<close>). The socket keeps the default
  \<open>binaryType\<close>, so a frame arrives as a Node buffer or, at most, as an \<open>ArrayBuffer\<close>;
  both hold the frame's bytes.\<close>

datatype RawData = NodeBuffer Buffer | ArrayBuffer Buffer

definition audioChunk :: "RawData \<Rightarrow> Buffer" where
  "audioChunk message = (case message of NodeBuffer b \<Rightarrow> b | ArrayBuffer b \<Rightarrow> b)"

definition appendEvent :: "Buffer \<Rightarrow> (string \<times> jsvalue) list" where
  "appendEvent chunk =
     [(''type'', JString ''input_audio_buffer.append''),
      (''audio'', JString (toString_base64 chunk))]"

text \<open>\<open>parses\<close> says whether \<open>JSON.parse\<close> accepts a text frame; it only selects the
  console message.\<close>

definition on_client_message ::
  "env \<Rightarrow> RawData \<Rightarrow> bool \<Rightarrow> bool \<Rightarrow> globals \<Rightarrow> conn \<Rightarrow> result" where
  "on_client_message e message isBinary parses g c =
     (if clientClosed c \<or> wsOpenAI c = None \<or> openai_readyState e \<noteq> OPEN then
        (g, c,
         if wsOpenAI c = None \<or> openai_readyState e \<noteq> OPEN
         then [Console console_warn
                 ''Received client message, but OpenAI WebSocket is not ready or null.'']
         else [])
      else if isBinary then
        (if platform_throws e then
           (g, c, [OpenAI_send (JsonFrame (appendEvent (audioChunk message))),
                   Console console_error ''Error sending audio chunk to OpenAI:''])
         else
           (log_push \<lparr>timestamp = Date_now e, entry_type = ''user_audio_chunk_sent'',
                      entry_props = [(''size'', JNumber (length (audioChunk message)))]\<rparr> g,
            c, [OpenAI_send (JsonFrame (appendEvent (audioChunk message)))]))
      else
        (case message of
           NodeBuffer b \<Rightarrow>
             (g, c,
              [if parses then Console console_log ''Received control message from client:''
               else Console console_warn ''Received non-JSON string/buffer from client:''])
         | ArrayBuffer b \<Rightarrow>
             (g, c, [Console console_warn ''Received unexpected message type from client:''])))"

definition on_client_close :: "env \<Rightarrow> nat \<Rightarrow> string \<Rightarrow> globals \<Rightarrow> conn \<Rightarrow> result" where
  "on_client_close e code reasonString g c =
     (if clientClosed c then (g, c, [])
      else
        (case safeCloseOpenAI e 1000 ''Client disconnected'' (c\<lparr>clientClosed := True\<rparr>) of
           (c1, fx) \<Rightarrow>
             (log_push \<lparr>timestamp = Date_now e, entry_type = ''client_disconnected'',
                        entry_props = [(''code'', JNumber code),
                                       (''reason'', JString reasonString)]\<rparr> g,
              c1,
              Console console_log ''Frontend client disconnected'' # fx)))"

definition on_client_error :: "env \<Rightarrow> string \<Rightarrow> globals \<Rightarrow> conn \<Rightarrow> result" where
  "on_client_error e message g c =
     (if clientClosed c then (g, c, [])
      else
        (case safeCloseOpenAI e 1011 ''Client connection error'' (c\<lparr>clientClosed := True\<rparr>) of
           (c1, fx) \<Rightarrow>
             (log_push \<lparr>timestamp = Date_now e, entry_type = ''client_ws_error'',
                        entry_props = [(''message'', JString message)]\<rparr> g,
              c1,
              Console console_error ''Frontend client WebSocket Error:'' # fx)))"

section \<open>Completion of \<open>fs.writeFile\<close>\<close>

text \<open>Both \<open>fs.writeFile\<close> calls pass a callback that receives the error, if any, and only
  writes to the console.\<close>

definition on_writeFile_done :: "string \<Rightarrow> string \<Rightarrow> string option \<Rightarrow> globals \<Rightarrow> conn \<Rightarrow> result" where
  "on_writeFile_done failed saved err g c =
     (case err of
        Some x \<Rightarrow> (g, c, [Console console_error failed])
      | None \<Rightarrow> (g, c, [Console console_log saved]))"

section \<open>\<open>handleNewClientConnection\<close> and the callbacks it registers\<close>

text \<open>
  The call logs the connection, builds the two headers and constructs the upstream socket.
  When the constructor throws, the client is closed with 1011 and the function returns
  before registering any callback (\<open>None\<close>); otherwise the callbacks below share the new
  connection state.
\<close>

definition headers :: "config \<Rightarrow> (string \<times> string) list" where
  "headers cfg =
     [(''Authorization'', ''Bearer '' @ OPENAI_API_KEY cfg),
      (''OpenAI-Beta'', ''realtime=v1'')]"

definition handleNewClientConnection ::
  "config \<Rightarrow> env \<Rightarrow> string option \<Rightarrow> globals \<Rightarrow> globals \<times> conn option \<times> effect list" where
  "handleNewClientConnection cfg e ip g =
     (let g1 = log_push \<lparr>timestamp = Date_now e, entry_type = ''connect'',
                          entry_props = [(''ip'', undefined_or_string ip)]\<rparr> g;
          c0 = \<lparr>clientIp = ip, wsOpenAI = None, clientClosed = False, openAIConnected = False,
                openAISessionId = None, turnInProgress = False\<rparr>;
          started = [Console console_log ''New client connected. Initiating OpenAI connection...'',
                     NewWebSocket (WEBSOCKET_URL_WITH_MODEL (OPENAI_CONFIG cfg)) (headers cfg)]
      in if platform_throws e then
           (case safeCloseClient e 1011 ''Failed to initiate OpenAI connection'' c0 of
              (c1, fx) \<Rightarrow>
                (g1, None, started @ Console console_error ''Error creating OpenAI WebSocket:'' # fx))
         else
           (g1, Some (c0\<lparr>wsOpenAI := Some UpstreamSocket\<rparr>),
            started @ [Console console_log ''Attempting connection to OpenAI'']))"

datatype event =
    OpenAI_on_open
  | OpenAI_on_message Buffer "OpenAIMessage option"
  | OpenAI_on_error string
  | OpenAI_on_close nat string
  | Client_on_message RawData bool bool
  | Client_on_close nat string
  | Client_on_error string
  | Audio_writeFile_done "string option"
  | Transcript_writeFile_done "string option"

fun handle_event :: "env \<Rightarrow> event \<Rightarrow> globals \<Rightarrow> conn \<Rightarrow> result" where
  "handle_event e OpenAI_on_open g c = on_openai_open e g c"
| "handle_event e (OpenAI_on_message messageBuffer parsed) g c =
     on_openai_message e messageBuffer parsed g c"
| "handle_event e (OpenAI_on_error message) g c = on_openai_error e message g c"
| "handle_event e (OpenAI_on_close code reason) g c = on_openai_close e code reason g c"
| "handle_event e (Client_on_message message isBinary parses) g c =
     on_client_message e message isBinary parses g c"
| "handle_event e (Client_on_close code reason) g c = on_client_close e code reason g c"
| "handle_event e (Client_on_error message) g c = on_client_error e message g c"
| "handle_event e (Audio_writeFile_done err) g c =
     on_writeFile_done ''Error saving backend audio file'' ''Saved backend audio'' err g c"
| "handle_event e (Transcript_writeFile_done err) g c =
     on_writeFile_done ''Error saving transcript file'' ''Saved transcript'' err g c"

text \<open>A run of one connection: the callbacks fire one at a time, each with its own
  environment; the effects are collected in order.\<close>

fun run :: "(env \<times> event) list \<Rightarrow> globals \<Rightarrow> conn \<Rightarrow> result" where
  "run [] g c = (g, c, [])"
| "run ((e, ev) # rest) g c =
     (case handle_event e ev g c of
        (g1, c1, fx1) \<Rightarrow>
          (case run rest g1 c1 of (g2, c2, fx2) \<Rightarrow> (g2, c2, fx1 @ fx2)))"

text \<open>The whole life of one client connection: the call of
  \<open>handleNewClientConnection\<close>, then the events of its two sockets. Without registered
  callbacks the events have no effect.\<close>

definition session :: "config \<Rightarrow> env \<Rightarrow> string option \<Rightarrow> (env \<times> event) list \<Rightarrow> globals
    \<Rightarrow> globals \<times> conn option \<times> effect list" where
  "session cfg e ip events g =
     (case handleNewClientConnection cfg e ip g of
        (g1, None, fx) \<Rightarrow> (g1, None, fx)
      | (g1, Some c, fx) \<Rightarrow>
          (case run events g1 c of (g2, c2, fx2) \<Rightarrow> (g2, Some c2, fx @ fx2)))"

section \<open>The server's \<open>connection\<close> callback (\<open>src/server.ts\<close>, \<open>server.js\<close>)\<close>

definition allowedOrigins :: "string list" where
  "allowedOrigins = [''http://localhost:5173'']"

text \<open>\<open>req.headers.origin\<close> is a string or \<open>undefined\<close>; \<open>!origin\<close> holds for \<open>undefined\<close>
  and for the empty string.\<close>

definition not_origin :: "string option \<Rightarrow> bool" where
  "not_origin origin = (case origin of None \<Rightarrow> True | Some s \<Rightarrow> s = [])"

definition includes_origin :: "string option \<Rightarrow> bool" where
  "includes_origin origin = (case origin of None \<Rightarrow> False | Some s \<Rightarrow> s \<in> set allowedOrigins)"

text \<open>\<open>corsOptions.origin(origin, callback)\<close>: the pair is what the callback receives, an
  error message or none, and the \<open>allow\<close> flag.\<close>

definition corsOptions_origin :: "string option \<Rightarrow> string option \<times> bool" where
  "corsOptions_origin origin =
     (if not_origin origin \<or> includes_origin origin then (None, True)
      else (Some (''The CORS policy for this site does not allow access from the specified Origin: ''
                    @ or_else origin []), False))"

datatype verdict = Bridge "string option" | Reject nat string

text \<open>The TypeScript server asks \<open>corsOptions.origin\<close>; the JavaScript one tests the list
  itself. \<open>Bridge ip\<close> is the call \<open>handleNewClientConnection(wsClient, ip)\<close>,
  \<open>Reject code reason\<close> the call \<open>wsClient.close(code, reason)\<close>.\<close>

definition wss_on_connection :: "string option \<Rightarrow> string option \<Rightarrow> verdict" where
  "wss_on_connection origin ip =
     (case corsOptions_origin origin of
        (err, allow) \<Rightarrow>
          if err \<noteq> None \<or> \<not> allow then Reject 1008 ''Origin not allowed'' else Bridge ip)"

definition wss_on_connection_js :: "string option \<Rightarrow> string option \<Rightarrow> verdict" where
  "wss_on_connection_js origin ip =
     (if includes_origin origin \<or> not_origin origin then Bridge ip
      else Reject 1008 ''Origin not allowed'')"

text \<open>The callback as a whole: a bridged connection runs \<open>handleNewClientConnection\<close>, a
  rejected one is closed and gets no connection state.\<close>

definition server_connection ::
  "config \<Rightarrow> env \<Rightarrow> string option \<Rightarrow> string option \<Rightarrow> globals
    \<Rightarrow> globals \<times> conn option \<times> effect list" where
  "server_connection cfg e origin ip g =
     (case wss_on_connection origin ip of
        Bridge ip' \<Rightarrow>
          (case handleNewClientConnection cfg e ip' g of
             (g1, c, fx) \<Rightarrow>
               (g1, c, Console console_log ''New client connection allowed'' # fx))
      | Reject code reason \<Rightarrow>
          (g, None,
           [Console console_warn ''Rejected WebSocket connection due to CORS policy.'',
            Client_close code reason]))"

section \<open>Several connections in one process\<close>

text \<open>The process holds the module-level variables once and one connection state per
  accepted client, numbered in order of arrival. \<open>Accept\<close> is an
  incoming connection with its \<open>Origin\<close> header and address; \<open>Deliver\<close> names the
  connection whose callback fires.\<close>

record process =
  shared :: globals
  connections :: "conn option list"

definition initial_globals :: globals where
  "initial_globals =
     \<lparr>conversationLog = [], currentResponseAudioChunks = [], currentResponseId = None\<rparr>"

definition initial_process :: process where
  "initial_process = \<lparr>shared = initial_globals, connections = []\<rparr>"

datatype process_event =
    Accept env "string option" "string option"
  | Deliver nat env event

fun process_step :: "config \<Rightarrow> process_event \<Rightarrow> process \<Rightarrow> process \<times> effect list" where
  "process_step cfg (Accept e origin ip) p =
     (case server_connection cfg e origin ip (shared p) of
        (g1, c, fx) \<Rightarrow> (\<lparr>shared = g1, connections = connections p @ [c]\<rparr>, fx))"
| "process_step cfg (Deliver i e ev) p =
     (if i < length (connections p) then
        (case connections p ! i of
           None \<Rightarrow> (p, [])
         | Some c \<Rightarrow>
             (case handle_event e ev (shared p) c of
                (g1, c1, fx) \<Rightarrow>
                  (\<lparr>shared = g1, connections = (connections p)[i := Some c1]\<rparr>, fx)))
      else (p, []))"

fun process_run :: "config \<Rightarrow> process_event list \<Rightarrow> process \<Rightarrow> process" where
  "process_run cfg [] p = p"
| "process_run cfg (x # xs) p = process_run cfg xs (fst (process_step cfg x p))"

section \<open>Observing results\<close>

text \<open>Reading the parts of a result.\<close>

definition effects :: "'a \<times> 'b \<times> effect list \<Rightarrow> effect list" where
  "effects r = snd (snd r)"

fun opens_upstream :: "effect \<Rightarrow> bool" where
  "opens_upstream (NewWebSocket url hs) = True"
| "opens_upstream x = False"

fun is_console :: "effect \<Rightarrow> bool" where
  "is_console (Console level text) = True"
| "is_console x = False"

text \<open>What a callback does besides console output.\<close>

definition actions :: "effect list \<Rightarrow> effect list" where
  "actions fx = filter (\<lambda>x. \<not> is_console x) fx"

text \<open>The completion of the audio write (\<open>True\<close>) or of the transcript write.\<close>

definition write_done :: "bool \<Rightarrow> string option \<Rightarrow> event" where
  "write_done audio err =
     (if audio then Audio_writeFile_done err else Transcript_writeFile_done err)"

text \<open>A list that is the old one, or the old one with one element added at the end.\<close>

definition appended_at_most_one :: "'a list \<Rightarrow> 'a list \<Rightarrow> bool" where
  "appended_at_most_one old new = (new = old \<or> (new \<noteq> [] \<and> butlast new = old))"

text \<open>The callbacks keep these relations between the variables of a connection: the client
  is marked closed exactly when \<open>wsOpenAI\<close> is \<open>null\<close>, and \<open>openAIConnected\<close> is set only
  while \<open>wsOpenAI\<close> holds the socket.\<close>

definition consistent :: "conn \<Rightarrow> bool" where
  "consistent c =
     ((clientClosed c \<longleftrightarrow> wsOpenAI c = None) \<and> (openAIConnected c \<longrightarrow> wsOpenAI c \<noteq> None))"

text \<open>The message callback gets past its guard.\<close>

definition handled :: "conn \<Rightarrow> bool" where
  "handled c = (\<not> clientClosed c \<and> openAIConnected c \<and> wsOpenAI c \<noteq> None)"

section \<open>Concrete inputs\<close>

text \<open>A configuration, environments and upstream events used to run the model on concrete
  inputs.\<close>

definition example_process_env :: "string \<rightharpoonup> string" where
  "example_process_env = [''OPENAI_API_KEY'' \<mapsto> ''sk-test'']"

definition example_config :: config where
  "example_config =
     \<lparr>OPENAI_API_KEY = ''sk-test'',
      OPENAI_CONFIG =
        \<lparr>MODEL = ''gpt-4o-mini-realtime-preview-2024-12-17'',
         BASE_URL = ''wss://api.openai.com/v1/realtime'',
         WEBSOCKET_URL_WITH_MODEL =
           ''wss://api.openai.com/v1/realtime?model=gpt-4o-mini-realtime-preview-2024-12-17''\<rparr>\<rparr>"

definition env_with :: "readyState \<Rightarrow> readyState \<Rightarrow> env" where
  "env_with client_state openai_state =
     \<lparr>Date_now = 1700000000000, Date_iso = ''2023-11-14T22:13:20.000Z'',
      client_readyState = client_state, openai_readyState = openai_state,
      platform_throws = False\<rparr>"

definition message_of_type :: "string \<Rightarrow> OpenAIMessage" where
  "message_of_type t =
     \<lparr>msg_type = t, msg_event_id = None, msg_session = None, msg_response = None,
      msg_delta = None, msg_message = None, msg_error = None, msg_code = None,
      msg_json = ''{}''\<rparr>"

definition response_created :: "string \<Rightarrow> OpenAIMessage" where
  "response_created rid =
     (message_of_type ''response.created'')
       \<lparr>msg_response :=
          Some \<lparr>response_id = Some rid, response_status = None, response_output = None\<rparr>\<rparr>"

definition audio_delta :: "string \<Rightarrow> OpenAIMessage" where
  "audio_delta d = (message_of_type ''response.audio.delta'')\<lparr>msg_delta := Some d\<rparr>"

text \<open>The \<open>response.audio.delta\<close> events of one response, each with its environment and
  raw buffer.\<close>

definition delta_events :: "(env \<times> Buffer \<times> string) list \<Rightarrow> (env \<times> event) list" where
  "delta_events ds =
     map (\<lambda>(e, raw, d). (e, OpenAI_on_message raw (Some (audio_delta d)))) ds"

definition response_done_with_text :: "string \<Rightarrow> OpenAIMessage" where
  "response_done_with_text t =
     (message_of_type ''response.done'')
       \<lparr>msg_response :=
          Some \<lparr>response_id = None, response_status = Some ''completed'',
                response_output =
                  Some [\<lparr>item_type = ''message'', item_role = Some ''assistant'',
                         item_content =
                           Some [\<lparr>part_type = ''output_text'', part_text = Some t,
                                  part_transcript = None\<rparr>]\<rparr>]\<rparr>\<rparr>"

text \<open>A connection whose upstream socket has opened: the state after
  \<open>handleNewClientConnection\<close> and the \<open>open\<close> callback.\<close>

definition live_conn :: conn where
  "live_conn =
     \<lparr>clientIp = Some ''127.0.0.1'', wsOpenAI = Some UpstreamSocket, clientClosed = False,
      openAIConnected = True, openAISessionId = None, turnInProgress = False\<rparr>"

definition error_event :: OpenAIMessage where
  "error_event =
     (message_of_type ''error'')
       \<lparr>msg_error := Some (ErrorObject (Some ''boom'') (Some ''server_error'') None ''{}'')\<rparr>"

text \<open>Two clients served by one process. Both upstream sockets have opened; the second
  connection has received \<open>response.created\<close> and one audio delta.\<close>

definition two_clients :: process where
  "two_clients =
     process_run example_config
       [Accept (env_with OPEN CONNECTING) None (Some ''10.0.0.1''),
        Accept (env_with OPEN CONNECTING) None (Some ''10.0.0.2''),
        Deliver 0 (env_with OPEN OPEN) OpenAI_on_open,
        Deliver 1 (env_with OPEN OPEN) OpenAI_on_open,
        Deliver 1 (env_with OPEN OPEN) (OpenAI_on_message [] (Some (response_created ''resp_B''))),
        Deliver 1 (env_with OPEN OPEN) (OpenAI_on_message [] (Some (audio_delta ''AAAA'')))]
       initial_process"

definition connected_client :: "string \<Rightarrow> bool \<Rightarrow> conn" where
  "connected_client ip turn =
     \<lparr>clientIp = Some ip, wsOpenAI = Some UpstreamSocket, clientClosed = False,
      openAIConnected = True, openAISessionId = None, turnInProgress = turn\<rparr>"

text \<open>The life of one client connection whose upstream socket opens while the client is
  OPEN, followed by the given events.\<close>

definition example_session :: "(env \<times> event) list \<Rightarrow> globals \<times> conn option \<times> effect list" where
  "example_session events =
     session example_config (env_with OPEN CONNECTING) (Some ''127.0.0.1'')
       ((env_with OPEN OPEN, OpenAI_on_open) # events) initial_globals"

text \<open>An upstream \<open>error\<close> event whose message is the letter U+00E9 (e with an acute
  accent) one hundred times: 100 code units, 200 bytes in UTF-8.\<close>

definition accented_error_event :: OpenAIMessage where
  "accented_error_event =
     (message_of_type ''error'')
       \<lparr>msg_error :=
          Some (ErrorObject (Some (replicate 100 (CHR 0xE9))) (Some ''server_error'') None ''{}'')\<rparr>"

text \<open>A response id with a NUL character in it (\<open>\u0000\<close> in the JSON text).\<close>

definition nul_id :: string where
  "nul_id = ''resp_'' @ [CHR 0x00] @ ''1''"

text \<open>One response on a connection: \<open>response.created\<close> with the given id, the given
  audio deltas, and \<open>response.done\<close> with the given event and raw buffer.\<close>

definition one_response ::
  "string \<Rightarrow> string list \<Rightarrow> Buffer \<Rightarrow> OpenAIMessage \<Rightarrow> (env \<times> event) list" where
  "one_response rid deltas raw finished =
     (env_with OPEN OPEN, OpenAI_on_message [] (Some (response_created rid))) #
     map (\<lambda>d. (env_with OPEN OPEN, OpenAI_on_message [] (Some (audio_delta d)))) deltas @
     [(env_with OPEN OPEN, OpenAI_on_message raw (Some finished))]"

section \<open>The base64 codec: decoding an encoding gives the bytes back\<close>

lemma mask_numerals: "(3::byte) = mask 2" "(15::byte) = mask 4" "(63::byte) = mask 6"
  by (simp_all add: mask_eq_exp_minus_1)

lemma byte_index: "n < LENGTH(8) \<Longrightarrow> n \<in> {0, 1, 2, 3, 4, 5, 6, 7::nat}"
  by simp arith

lemma no_high_bit: "8 \<le> n \<Longrightarrow> \<not> bit (a::byte) n"
  using bit_imp_le_length [of a n] by auto

lemma octet1_sextets: "octet1 (sextet1 a) (sextet2 a b) = a"
  unfolding octet1_def sextet1_def sextet2_def mask_numerals
  apply (rule bit_word_eqI)
  apply (drule byte_index)
  apply (elim insertE emptyE; simp add: bit_simps no_high_bit)
  done

lemma octet2_sextets: "octet2 (sextet2 a b) (sextet3 b c) = b"
  unfolding octet2_def sextet2_def sextet3_def mask_numerals
  apply (rule bit_word_eqI)
  apply (drule byte_index)
  apply (elim insertE emptyE; simp add: bit_simps no_high_bit)
  done

lemma octet3_sextets: "octet3 (sextet3 b c) (sextet4 c) = c"
  unfolding octet3_def sextet3_def sextet4_def mask_numerals
  apply (rule bit_word_eqI)
  apply (drule byte_index)
  apply (elim insertE emptyE; simp add: bit_simps no_high_bit)
  done

lemma sextet_lt: "take_bit 6 (w::byte) = w \<Longrightarrow> unat w < 64"
proof -
  assume h: "take_bit 6 w = w"
  have "unat (take_bit 6 w) < 2 ^ 6"
    by (simp only: unsigned_take_bit_eq take_bit_nat_less_exp)
  with h show ?thesis by simp
qed

lemma sextet1_lt: "unat (sextet1 a) < 64"
  unfolding sextet1_def
  apply (rule sextet_lt)
  apply (rule bit_word_eqI)
  apply (drule byte_index)
  apply (elim insertE emptyE; simp add: bit_simps no_high_bit)
  done

lemma sextet2_lt: "unat (sextet2 a b) < 64"
  unfolding sextet2_def mask_numerals
  apply (rule sextet_lt)
  apply (rule bit_word_eqI)
  apply (drule byte_index)
  apply (elim insertE emptyE; simp add: bit_simps no_high_bit)
  done

lemma sextet3_lt: "unat (sextet3 a b) < 64"
  unfolding sextet3_def mask_numerals
  apply (rule sextet_lt)
  apply (rule bit_word_eqI)
  apply (drule byte_index)
  apply (elim insertE emptyE; simp add: bit_simps no_high_bit)
  done

lemma sextet4_lt: "unat (sextet4 a) < 64"
  unfolding sextet4_def mask_numerals
  apply (rule sextet_lt)
  apply (rule bit_word_eqI)
  apply (drule byte_index)
  apply (elim insertE emptyE; simp add: bit_simps no_high_bit)
  done

lemma distinct_b64chars: "distinct b64chars"
  unfolding b64chars_def by simp

lemma index_of_nth: "distinct xs \<Longrightarrow> n < length xs \<Longrightarrow> index_of (xs ! n) xs = Some n"
proof (induction xs arbitrary: n)
  case Nil then show ?case by simp
next
  case (Cons x xs)
  then show ?case by (cases n) (auto simp: nth_Cons')
qed

lemma b64chars_plain:
  "\<forall>c \<in> set b64chars. c \<noteq> CHR ''='' \<and> c \<noteq> CHR ''-'' \<and> c \<noteq> CHR ''_''"
  unfolding b64chars_def by simp

lemma length_b64chars: "length b64chars = 64"
  unfolding b64chars_def by simp

lemma unbase64_b64char: "unat w < 64 \<Longrightarrow> unbase64 (b64char w) = Some w"
  using b64chars_plain index_of_nth [OF distinct_b64chars, of "unat w"]
  by (simp add: unbase64_def b64char_def length_b64chars)

lemma b64char_not_pad: "unat w < 64 \<Longrightarrow> b64char w \<noteq> CHR ''=''"
  using b64chars_plain by (simp add: b64char_def length_b64chars)

lemmas sextet_bounds = sextet1_lt sextet2_lt sextet3_lt sextet4_lt

lemma base64_roundtrip: "Buffer_from_base64 (toString_base64 bs) = bs"
proof (induction bs rule: toString_base64.induct)
  case (1 a b c rest)
  then show ?case
    by (simp add: Buffer_from_base64_def List.map_filter_simps unbase64_b64char
        b64char_not_pad sextet_bounds octet1_sextets octet2_sextets octet3_sextets)
next
  case (2 a b)
  show ?case
    by (simp add: Buffer_from_base64_def List.map_filter_simps unbase64_b64char
        b64char_not_pad sextet_bounds octet1_sextets octet2_sextets)
next
  case (3 a)
  show ?case
    by (simp add: Buffer_from_base64_def List.map_filter_simps unbase64_b64char
        b64char_not_pad sextet_bounds octet1_sextets)
next
  case 4
  show ?case by (simp add: Buffer_from_base64_def List.map_filter_simps)
qed

section \<open>Shared lemmas about runs and the message callback\<close>

lemma run_append:
  "run (xs @ ys) g c =
     (case run xs g c of
        (g1, c1, fx1) \<Rightarrow> (case run ys g1 c1 of (g2, c2, fx2) \<Rightarrow> (g2, c2, fx1 @ fx2)))"
  by (induction xs arbitrary: g c) (auto split: prod.split)

lemma actions_append: "actions (xs @ ys) = actions xs @ actions ys"
  by (simp add: actions_def)

lemma kind_of_simps [simp]:
  "kind_of ''response.done'' = ResponseDone"
  "kind_of ''response.created'' = ResponseCreated"
  "kind_of ''response.audio.delta'' = ResponseAudioDelta"
  "kind_of ''error'' = ErrorReported"
  "kind_of ''invalid_request_error'' = ErrorReported"
  by (simp_all add: kind_of_def ignored_types_def)

lemma try_catch_Returned [simp]: "try_catch e raw (Returned r) = r"
  by (simp add: try_catch_def)

lemma try_catch_Threw [simp]:
  "try_catch e raw (Threw (g, c, fx)) =
     (fst (catch_non_json e raw g c), fst (snd (catch_non_json e raw g c)),
      fx @ snd (snd (catch_non_json e raw g c)))"
  by (simp add: try_catch_def case_prod_beta)

lemma on_openai_message_handled:
  "handled c \<Longrightarrow>
   on_openai_message e raw (Some data) g c = try_catch e raw (dispatch e data g c)"
  by (auto simp: on_openai_message_def handled_def)

section \<open>The concrete inputs, evaluated\<close>

lemma live_conn_simps [simp]:
  "clientClosed live_conn = False"
  "openAIConnected live_conn = True"
  "wsOpenAI live_conn = Some UpstreamSocket"
  by (simp_all add: live_conn_def)

lemma handled_live_conn [simp]: "handled live_conn"
  by (simp add: handled_def live_conn_def)

lemma decode_example: "Buffer_from_base64 ''AAAA'' = [0, 0, 0]"
  by (simp add: Buffer_from_base64_def List.map_filter_simps unbase64_def b64chars_def
      octet1_def octet2_def octet3_def)

lemma final_text_example [simp]: "finalAssistantText (response_done_with_text t) = t"
  by (simp add: finalAssistantText_def response_done_with_text_def message_of_type_def
      text_of_content_def Let_def truthy_def or_else_def)

lemma timestamp_example:
  "transcript_timestamp ''2023-11-14T22:13:20.000Z'' = ''2023-11-14T22-13-20''"
  by (simp add: transcript_timestamp_def replace_colons_def line_terminator_def)

lemma env_with_simps [simp]:
  "Date_now (env_with a b) = 1700000000000"
  "Date_iso (env_with a b) = ''2023-11-14T22:13:20.000Z''"
  "client_readyState (env_with a b) = a"
  "openai_readyState (env_with a b) = b"
  "platform_throws (env_with a b) = False"
  by (simp_all add: env_with_def)

lemma example_types [simp]:
  "msg_type (response_done_with_text t) = ''response.done''"
  "msg_type (response_created rid) = ''response.created''"
  "msg_type (audio_delta d) = ''response.audio.delta''"
  "msg_type (message_of_type k) = k"
  by (simp_all add: response_done_with_text_def response_created_def audio_delta_def
      message_of_type_def)

lemma decimal_example: "decimal 1700000000000 = ''1700000000000''"
  by (simp add: decimal.simps)

lemma live_conn_reachable:
  "fst (snd (session example_config (env_with OPEN CONNECTING) (Some ''127.0.0.1'')
               [(env_with OPEN OPEN, OpenAI_on_open)] initial_globals)) = Some live_conn"
  by (simp add: session_def handleNewClientConnection_def Let_def on_openai_open_def
      live_conn_def)

lemma error_event_simps [simp]:
  "msg_type error_event = ''error''"
  "errMsg error_event = ''boom''"
  by (simp_all add: error_event_def message_of_type_def errMsg_def truthy_detail_def)

section \<open>The variables of a connection stay consistent\<close>

lemma consistent_close_both [simp]: "consistent (fst (close_both e code r1 r2 c))"
  by (simp add: consistent_def close_both_def safeCloseClient_def safeCloseOpenAI_def)

lemma consistent_turnInProgress [simp]: "consistent (c\<lparr>turnInProgress := b\<rparr>) = consistent c"
  by (simp add: consistent_def)

lemma consistent_openAISessionId [simp]: "consistent (c\<lparr>openAISessionId := b\<rparr>) = consistent c"
  by (simp add: consistent_def)

lemma catch_non_json_conn [simp]: "fst (snd (catch_non_json e raw g c)) = c"
  by (simp add: catch_non_json_def case_prod_beta)

lemma dispatch_consistent:
  "consistent c \<Longrightarrow> consistent (fst (snd (try_catch e raw (dispatch e data g c))))"
  by (cases "kind_of (msg_type data)")
     (simp_all add: dispatch_def case_session_created_def case_session_closed_def
      case_response_created_def case_response_audio_delta_def case_response_text_delta_def
      case_response_done_def case_speech_event_def case_error_def Let_def case_prod_beta
      split: option.split)

lemma handle_event_consistent:
  assumes "consistent c"
  shows "consistent (fst (snd (handle_event e ev g c)))"
proof (cases ev)
  case OpenAI_on_open
  with assms show ?thesis
    by (auto simp: on_openai_open_def Let_def case_prod_beta consistent_def close_both_def
        safeCloseClient_def safeCloseOpenAI_def)
next
  case (OpenAI_on_message b parsed)
  with assms dispatch_consistent [OF assms] show ?thesis
    by (simp add: on_openai_message_def split: option.split)
next
  case (OpenAI_on_error m)
  with assms show ?thesis by (simp add: on_openai_error_def case_prod_beta)
next
  case (OpenAI_on_close code reason)
  with assms show ?thesis
    by (auto simp: on_openai_close_def case_prod_beta consistent_def safeCloseClient_def)
next
  case (Client_on_message m b p)
  with assms show ?thesis by (simp add: on_client_message_def split: RawData.split)
next
  case (Client_on_close code reason)
  with assms show ?thesis
    by (auto simp: on_client_close_def case_prod_beta consistent_def safeCloseOpenAI_def)
next
  case (Client_on_error m)
  with assms show ?thesis
    by (auto simp: on_client_error_def case_prod_beta consistent_def safeCloseOpenAI_def)
next
  case (Audio_writeFile_done err)
  with assms show ?thesis by (simp add: on_writeFile_done_def split: option.split)
next
  case (Transcript_writeFile_done err)
  with assms show ?thesis by (simp add: on_writeFile_done_def split: option.split)
qed

lemma run_consistent:
  "consistent c \<Longrightarrow> consistent (fst (snd (run events g c)))"
proof (induction events arbitrary: g c)
  case Nil
  then show ?case by simp
next
  case (Cons x events)
  obtain e ev where x: "x = (e, ev)" by (cases x)
  from Cons.IH [OF handle_event_consistent [OF Cons.prems, of e ev g]] x
  show ?case by (simp add: case_prod_beta)
qed

lemma session_consistent:
  assumes "fst (snd (session cfg e ip events g)) = Some c"
  shows "consistent c"
proof -
  obtain g0 co fx0 where h: "handleNewClientConnection cfg e ip g = (g0, co, fx0)"
    by (cases "handleNewClientConnection cfg e ip g")
  show ?thesis
  proof (cases co)
    case None
    with h assms show ?thesis by (simp add: session_def)
  next
    case (Some c0)
    with h have c0: "consistent c0"
      by (auto simp: handleNewClientConnection_def Let_def consistent_def case_prod_beta
          split: if_splits)
    from run_consistent [OF c0, of events g0] Some h assms show ?thesis
      by (auto simp: session_def case_prod_beta)
  qed
qed

section \<open>Two connections in one process\<close>

text \<open>The variables local to a connection (among them \<open>turnInProgress\<close>) are touched only
  by the callbacks of that connection.\<close>

lemma other_connections_untouched:
  assumes "j \<noteq> i"
  shows "connections (fst (process_step cfg (Deliver i e ev) p)) ! j = connections p ! j"
  using assms by (simp add: case_prod_beta split: option.split)

lemma writeFile_throws_audio [simp]:
  "writeFile_throws (audioSaveDir @ [rid @ ''_backend.raw'']) = (CHR 0x00 \<in> set rid)"
  by (simp add: writeFile_throws_def audioSaveDir_def)

lemma handled_connected_client [simp]: "handled (connected_client ip turn)"
  by (simp add: handled_def connected_client_def)

lemma two_clients_state:
  "connections two_clients = [Some (connected_client ''10.0.0.1'' False),
                              Some (connected_client ''10.0.0.2'' True)]
   \<and> currentResponseId (shared two_clients) = Some ''resp_B''
   \<and> currentResponseAudioChunks (shared two_clients) = [[0, 0, 0]]"
  by (simp add: two_clients_def initial_process_def initial_globals_def server_connection_def
      wss_on_connection_def corsOptions_origin_def not_origin_def
      handleNewClientConnection_def Let_def on_openai_open_def on_openai_message_def
      dispatch_def case_response_created_def case_response_audio_delta_def
      accumulate_and_forward_def or_else_def truthy_def decode_example
      response_created_def audio_delta_def message_of_type_def log_push_def
      connected_client_def)

text \<open>
  Claim C1. Handling a message on one connection should neither read nor change the
  accumulated audio buffer, the current response id or the turn flag that another
  connection observes. The turn flag is a variable of the connection and the lemma above
  covers it. The buffer and the response id, however, are module-level variables shared by
  all connections, and the property fails for them. With two
  clients connected, the second in the middle of a response with one audio chunk
  accumulated, a \<open>response.created\<close> event on the first connection replaces the response id
  and empties the buffer. The \<open>response.done\<close> event of the second connection, which would
  have written its audio to \<open>resp_B_backend.raw\<close>, then writes no audio file at all.
\<close>

theorem shared_audio_state_interference:
  "currentResponseId (shared two_clients) = Some ''resp_B''
   \<and> currentResponseAudioChunks (shared two_clients) = [[0, 0, 0]]
   \<and> currentResponseId (shared (fst (process_step example_config
         (Deliver 0 (env_with OPEN OPEN) (OpenAI_on_message [] (Some (response_created ''resp_A''))))
         two_clients))) = Some ''resp_A''
   \<and> currentResponseAudioChunks (shared (fst (process_step example_config
         (Deliver 0 (env_with OPEN OPEN) (OpenAI_on_message [] (Some (response_created ''resp_A''))))
         two_clients))) = []
   \<and> actions (snd (process_step example_config
         (Deliver 1 (env_with OPEN OPEN) (OpenAI_on_message [] (Some (message_of_type ''response.done''))))
         two_clients)) =
       [Fs_writeFile (audioSaveDir @ [''resp_B_backend.raw'']) (FileBytes [0, 0, 0]),
        Client_send (JsonFrame [(''type'', JString ''event''), (''name'', JString ''AIResponseEnd''),
                                (''finalText'', JString [])])]
   \<and> actions (snd (process_step example_config
         (Deliver 1 (env_with OPEN OPEN) (OpenAI_on_message [] (Some (message_of_type ''response.done''))))
         (fst (process_step example_config
            (Deliver 0 (env_with OPEN OPEN) (OpenAI_on_message [] (Some (response_created ''resp_A''))))
            two_clients)))) =
       [Client_send (JsonFrame [(''type'', JString ''event''), (''name'', JString ''AIResponseEnd''),
                                (''finalText'', JString [])])]"
  using two_clients_state
  by (simp add: case_prod_beta on_openai_message_handled dispatch_def
      case_response_created_def response_created_def
      case_response_done_def save_audio_def Let_def actions_def or_else_def
      finalAssistantText_def message_of_type_def send_if_open_def)

section \<open>One upstream connection per client connection\<close>

text \<open>No callback constructs a socket: the only \<open>new WebSocket\<close> is the one in
  \<open>handleNewClientConnection\<close>.\<close>

lemma close_both_no_open [simp]:
  "filter opens_upstream (snd (close_both e code r1 r2 c)) = []"
  by (simp add: close_both_def safeCloseClient_def safeCloseOpenAI_def)

lemma send_if_open_no_open [simp]: "filter opens_upstream (send_if_open e f) = []"
  by (simp add: send_if_open_def)

lemma accumulate_no_open [simp]:
  "filter opens_upstream (snd (accumulate_and_forward e b w g)) = []"
  by (simp add: accumulate_and_forward_def)

lemma catch_non_json_no_open [simp]:
  "filter opens_upstream (snd (snd (catch_non_json e raw g c))) = []"
  by (simp add: catch_non_json_def case_prod_beta)

lemma save_audio_no_open [simp]: "filter opens_upstream (save_audio rid chunks) = []"
  by (simp add: save_audio_def Let_def)

lemma dispatch_no_open:
  "filter opens_upstream (effects (try_catch e raw (dispatch e data g c))) = []"
  by (cases "kind_of (msg_type data)")
     (simp_all add: dispatch_def effects_def case_session_created_def case_session_closed_def
      case_response_created_def case_response_audio_delta_def case_response_text_delta_def
      case_response_done_def case_speech_event_def case_error_def Let_def case_prod_beta
      split: option.split)

lemma on_openai_message_no_open:
  "filter opens_upstream (effects (on_openai_message e b parsed g c)) = []"
  using dispatch_no_open [of e b _ g c]
  by (simp add: on_openai_message_def effects_def split: option.split)

lemma handle_event_no_open:
  "filter opens_upstream (effects (handle_event e ev g c)) = []"
proof (cases ev)
  case OpenAI_on_open
  then show ?thesis
    by (simp add: effects_def on_openai_open_def safeCloseOpenAI_def Let_def case_prod_beta)
next
  case (OpenAI_on_message b parsed)
  then show ?thesis by (simp add: on_openai_message_no_open)
next
  case (OpenAI_on_error m)
  then show ?thesis by (simp add: effects_def on_openai_error_def case_prod_beta)
next
  case (OpenAI_on_close code reason)
  then show ?thesis
    by (simp add: effects_def on_openai_close_def safeCloseClient_def case_prod_beta)
next
  case (Client_on_message m b p)
  then show ?thesis
    by (simp add: effects_def on_client_message_def split: RawData.split)
next
  case (Client_on_close code reason)
  then show ?thesis
    by (simp add: effects_def on_client_close_def safeCloseOpenAI_def)
next
  case (Client_on_error m)
  then show ?thesis
    by (simp add: effects_def on_client_error_def safeCloseOpenAI_def)
next
  case (Audio_writeFile_done err)
  then show ?thesis by (simp add: effects_def on_writeFile_done_def split: option.split)
next
  case (Transcript_writeFile_done err)
  then show ?thesis by (simp add: effects_def on_writeFile_done_def split: option.split)
qed


lemma handleNewClientConnection_opens:
  "filter opens_upstream (effects (handleNewClientConnection cfg e ip g)) =
     [NewWebSocket (WEBSOCKET_URL_WITH_MODEL (OPENAI_CONFIG cfg)) (headers cfg)]"
  by (simp add: handleNewClientConnection_def effects_def Let_def safeCloseClient_def)



section \<open>Audio between the two sides\<close>

lemma client_frame_forwarded:
  assumes "consistent c" and "wsOpenAI c \<noteq> None" and "openai_readyState e = OPEN"
  shows "OpenAI_send (JsonFrame [(''type'', JString ''input_audio_buffer.append''),
                                 (''audio'', JString (toString_base64 (audioChunk message)))])
         \<in> set (effects (on_client_message e message True parses g c))"
  using assms
  by (auto simp: on_client_message_def consistent_def effects_def appendEvent_def)

lemma audio_delta_forwarded:
  assumes "consistent c" and "openAIConnected c" and "client_readyState e = OPEN"
    and "msg_type data = ''response.audio.delta''" and "msg_delta data = Some d" and "d \<noteq> []"
  shows "Client_send (BinaryFrame (Buffer_from_base64 d))
         \<in> set (effects (on_openai_message e raw (Some data) g c))"
proof -
  from assms(1,2) have "handled c" by (auto simp: consistent_def handled_def)
  then show ?thesis
    using assms(3-)
    by (simp add: on_openai_message_handled dispatch_def case_response_audio_delta_def
        accumulate_and_forward_def send_if_open_def effects_def)
qed

text \<open>
  Claim C3, as stated, fails for the direction from the upstream API to the client: on a
  connection whose upstream socket has opened, a \<open>response.audio.delta\<close> event with a
  non-empty delta that arrives while the client socket is not OPEN is decoded and logged,
  and nothing is sent to the client.
\<close>

theorem audio_delta_dropped_when_client_not_open:
  "fst (snd (session example_config (env_with OPEN CONNECTING) (Some ''127.0.0.1'')
               [(env_with OPEN OPEN, OpenAI_on_open)] initial_globals)) = Some live_conn
   \<and> msg_type (audio_delta ''AAAA'') = ''response.audio.delta''
   \<and> msg_delta (audio_delta ''AAAA'') = Some ''AAAA''
   \<and> effects (on_openai_message (env_with CLOSING OPEN) [] (Some (audio_delta ''AAAA''))
                initial_globals live_conn) =
       [Console console_log ''Received OpenAI audio chunk (PCM16)'',
        Console console_warn ''Received audio delta but no current response ID.'']"
  using live_conn_reachable
  by (simp add: on_openai_message_handled dispatch_def case_response_audio_delta_def
      accumulate_and_forward_def send_if_open_def effects_def audio_delta_def
      message_of_type_def initial_globals_def truthy_def)

text \<open>
  Claim C3, amended. On a connection reached by any sequence of callbacks: every binary
  frame received from the client while the connection holds the upstream socket and that
  socket is OPEN is passed to \<open>wsOpenAI.send\<close> as the JSON event of type
  \<open>input_audio_buffer.append\<close> whose \<open>audio\<close> field is the base64 encoding of the frame's
  bytes; every upstream \<open>response.audio.delta\<close> event with a non-empty delta that arrives
  while the connection is marked connected and the client socket is OPEN is passed to
  \<open>wsClient.send\<close> as the bytes obtained by base64-decoding the delta; and decoding an
  encoding returns the original bytes.
\<close>

theorem audio_translation:
  "(fst (snd (session cfg e0 ip events g0)) = Some c \<and> wsOpenAI c \<noteq> None
      \<and> openai_readyState e = OPEN \<longrightarrow>
      OpenAI_send (JsonFrame [(''type'', JString ''input_audio_buffer.append''),
                              (''audio'', JString (toString_base64 (audioChunk message)))])
      \<in> set (effects (on_client_message e message True parses g c)))
   \<and> (fst (snd (session cfg e0 ip events g0)) = Some c \<and> openAIConnected c
        \<and> client_readyState e = OPEN \<and> msg_type data = ''response.audio.delta''
        \<and> msg_delta data = Some d \<and> d \<noteq> [] \<longrightarrow>
      Client_send (BinaryFrame (Buffer_from_base64 d))
      \<in> set (effects (on_openai_message e raw (Some data) g c)))
   \<and> Buffer_from_base64 (toString_base64 bytes) = bytes"
  using session_consistent [of cfg e0 ip events g0 c]
    client_frame_forwarded [of c e message parses g]
    audio_delta_forwarded [of c e data d raw g]
    base64_roundtrip [of bytes]
  by blast

theorem audio_translation_witness:
  "OpenAI_send (JsonFrame [(''type'', JString ''input_audio_buffer.append''),
                           (''audio'', JString ''AQID'')])
     \<in> set (effects (on_client_message (env_with OPEN OPEN) (NodeBuffer [1, 2, 3]) True False
                        initial_globals live_conn))
   \<and> Client_send (BinaryFrame [1, 2, 3])
     \<in> set (effects (on_openai_message (env_with OPEN OPEN) [] (Some (audio_delta ''AQID''))
                        initial_globals live_conn))
   \<and> Buffer_from_base64 (toString_base64 [1, 2, 3]) = [1, 2, 3]"
proof -
  have enc: "toString_base64 [1, 2, 3] = ''AQID''"
    by (simp add: b64char_def b64chars_def sextet1_def sextet2_def sextet3_def sextet4_def)
  have dec: "Buffer_from_base64 ''AQID'' = [1, 2, 3]"
    using base64_roundtrip [of "[1, 2, 3]"] by (simp only: enc)
  have delta: "msg_delta (audio_delta ''AQID'') = Some ''AQID''"
    by (simp add: audio_delta_def)
  show ?thesis
    using audio_translation
            [of example_config "env_with OPEN CONNECTING" "Some ''127.0.0.1''"
                "[(env_with OPEN OPEN, OpenAI_on_open)]" initial_globals live_conn
                "env_with OPEN OPEN" "NodeBuffer [1, 2, 3]" False initial_globals
                "audio_delta ''AQID''" "''AQID''" "[]" "[1, 2, 3]"]
      live_conn_reachable enc dec delta
    by (simp add: audioChunk_def)
qed

section \<open>Saving the audio of a response\<close>

lemma nul_id_simps [simp]:
  "nul_id \<noteq> []"
  "CHR 0x00 \<in> set nul_id"
  "or_else (Some nul_id) d = nul_id"
  "truthy (Some nul_id)"
  by (simp_all add: nul_id_def or_else_def truthy_def)

text \<open>The response id comes from the upstream event and goes into the file name as it is.
  With a NUL character in it the audio write throws inside its \<open>try\<close>: the error is logged
  and no file is written.\<close>

lemma audio_write_throws_on_nul_id:
  "writeFile_throws (audioSaveDir @ [nul_id @ ''_backend.raw''])
   \<and> save_audio nul_id [[0, 0, 0]] =
       [Fs_writeFile (audioSaveDir @ [nul_id @ ''_backend.raw'']) (FileBytes [0, 0, 0]),
        Console console_error ''Error concatenating audio chunks for saving:'']"
  by (simp add: save_audio_def Let_def)

text \<open>
  Claim C4. For every handled \<open>response.done\<close> event, the audio accumulated since the
  corresponding \<open>response.created\<close> should be written to a file in the audio directory and
  the extracted text to a transcript file. The code does this only while no other
  connection interferes: the buffer and the response id are module-level variables, the
  defect of claim C1. In the process \<open>two_clients\<close> the second connection has received
  \<open>response.created\<close> with id \<open>resp_B\<close> and one audio delta. Its \<open>response.done\<close> with the
  text \<open>Hello\<close>, arriving now, writes the three bytes to \<open>resp_B_backend.raw\<close> and the text
  to the transcript of \<open>resp_B\<close>. When a \<open>response.created\<close> of the first connection
  arrives in between, the same \<open>response.done\<close> writes no audio file, and files its
  transcript under the id \<open>resp_A\<close> of the other connection's response.
\<close>

theorem interleaved_response_done_writes_no_audio:
  "connections two_clients ! 1 = Some (connected_client ''10.0.0.2'' True)
   \<and> currentResponseId (shared two_clients) = Some ''resp_B''
   \<and> currentResponseAudioChunks (shared two_clients) = [[0, 0, 0]]
   \<and> actions (snd (process_step example_config
         (Deliver 1 (env_with OPEN OPEN)
            (OpenAI_on_message raw (Some (response_done_with_text ''Hello''))))
         two_clients)) =
       [Fs_writeFile (audioSaveDir @ [''resp_B_backend.raw'']) (FileBytes [0, 0, 0]),
        Fs_writeFile (transcriptsDir @ [''2023-11-14T22-13-20_resp_B_transcript.txt''])
          (FileText ''Hello''),
        Client_send (JsonFrame [(''type'', JString ''event''), (''name'', JString ''AIResponseEnd''),
                                (''finalText'', JString ''Hello'')])]
   \<and> actions (snd (process_step example_config
         (Deliver 1 (env_with OPEN OPEN)
            (OpenAI_on_message raw (Some (response_done_with_text ''Hello''))))
         (fst (process_step example_config
            (Deliver 0 (env_with OPEN OPEN)
               (OpenAI_on_message raw0 (Some (response_created ''resp_A''))))
            two_clients)))) =
       [Fs_writeFile (transcriptsDir @ [''2023-11-14T22-13-20_resp_A_transcript.txt''])
          (FileText ''Hello''),
        Client_send (JsonFrame [(''type'', JString ''event''), (''name'', JString ''AIResponseEnd''),
                                (''finalText'', JString ''Hello'')])]"
  using two_clients_state
  by (simp add: case_prod_beta on_openai_message_handled dispatch_def
      case_response_created_def response_created_def
      case_response_done_def save_audio_def transcriptFilePath_def timestamp_example
      writeFile_throws_def transcriptsDir_def
      Let_def actions_def or_else_def send_if_open_def)

section \<open>Closing the sockets on an upstream error\<close>

lemma byteLength_Nil [simp]: "byteLength [] = 0"
  by (simp add: byteLength_def)

lemma byteLength_Cons [simp]:
  "byteLength (ch # s) = (if of_char ch < (128 :: nat) then 1 else 2) + byteLength s"
  by (simp add: byteLength_def)

lemma byteLength_accented [simp]: "byteLength (replicate n (CHR 0xE9)) = 2 * n"
  by (simp add: byteLength_def sum_list_replicate)

lemma errMsg_accented [simp]:
  "errMsg accented_error_event = replicate 100 (CHR 0xE9)"
  "msg_type accented_error_event = ''error''"
  by (simp_all add: accented_error_event_def message_of_type_def errMsg_def truthy_detail_def)

lemma example_session_opened:
  "fst (snd (example_session [])) = Some live_conn"
  using live_conn_reachable by (simp add: example_session_def)

text \<open>
  Claim C5. On an upstream \<open>error\<close> message the handler should close the client socket and
  the upstream socket when they are open. It calls \<open>close\<close> on both, with a reason made of
  a prefix and the first 100 code units of the error message. \<open>substring(0, 100)\<close> bounds
  the code units, while the \<open>ws\<close> library bounds the bytes of the reason by 123. For the
  message of one hundred letters U+00E9, arriving on an opened connection while both
  sockets are OPEN, the two reasons take 214 and 216 bytes: both calls throw, each
  exception is caught and logged, and neither socket is closed. The connection is marked
  closed all the same (\<open>clientClosed\<close> set, \<open>wsOpenAI\<close> cleared), so no later callback closes
  them either.
\<close>

theorem long_error_reason_leaves_sockets_open:
  "fst (snd (example_session [])) = Some live_conn
   \<and> effects (on_openai_message (env_with OPEN OPEN) raw (Some accented_error_event)
                (fst (example_session [])) live_conn) =
       [Console console_error ''RAW Error Data from OpenAI:'',
        Console console_error ''Parsed Error from OpenAI'',
        Console console_log ''Closing client connection'',
        Client_close 1011 (''OpenAI Error: '' @ replicate 100 (CHR 0xE9)),
        Console console_error ''Error closing client WS:'',
        Console console_log ''Closing OpenAI connection'',
        OpenAI_close 1011 (''Reported error: '' @ replicate 100 (CHR 0xE9)),
        Console console_error ''Error closing OpenAI WS:'']
   \<and> byteLength (''OpenAI Error: '' @ replicate 100 (CHR 0xE9)) = 214
   \<and> close_throws (''OpenAI Error: '' @ replicate 100 (CHR 0xE9))
   \<and> byteLength (''Reported error: '' @ replicate 100 (CHR 0xE9)) = 216
   \<and> close_throws (''Reported error: '' @ replicate 100 (CHR 0xE9))
   \<and> fst (snd (on_openai_message (env_with OPEN OPEN) raw (Some accented_error_event)
                  (fst (example_session [])) live_conn)) =
       live_conn\<lparr>clientClosed := True, openAIConnected := False, wsOpenAI := None\<rparr>"
  using example_session_opened
  by (simp add: on_openai_message_handled dispatch_def case_error_def close_both_def
      safeCloseClient_def safeCloseOpenAI_def close_throws_def effects_def case_prod_beta)

theorem long_error_reason_witness:
  "fst (snd (example_session [])) = Some live_conn
   \<and> effects (on_openai_message (env_with OPEN OPEN) [123, 125] (Some accented_error_event)
                (fst (example_session [])) live_conn) =
       [Console console_error ''RAW Error Data from OpenAI:'',
        Console console_error ''Parsed Error from OpenAI'',
        Console console_log ''Closing client connection'',
        Client_close 1011 (''OpenAI Error: '' @ replicate 100 (CHR 0xE9)),
        Console console_error ''Error closing client WS:'',
        Console console_log ''Closing OpenAI connection'',
        OpenAI_close 1011 (''Reported error: '' @ replicate 100 (CHR 0xE9)),
        Console console_error ''Error closing OpenAI WS:'']
   \<and> byteLength (''OpenAI Error: '' @ replicate 100 (CHR 0xE9)) = 214
   \<and> close_throws (''OpenAI Error: '' @ replicate 100 (CHR 0xE9))
   \<and> byteLength (''Reported error: '' @ replicate 100 (CHR 0xE9)) = 216
   \<and> close_throws (''Reported error: '' @ replicate 100 (CHR 0xE9))
   \<and> fst (snd (on_openai_message (env_with OPEN OPEN) [123, 125] (Some accented_error_event)
                  (fst (example_session [])) live_conn)) =
       live_conn\<lparr>clientClosed := True, openAIConnected := False, wsOpenAI := None\<rparr>"
  by (rule long_error_reason_leaves_sockets_open)

section \<open>The conversation log only grows\<close>

lemma log_push_log [simp]: "conversationLog (log_push x g) = conversationLog g @ [x]"
  by (simp add: log_push_def)

lemma appended_refl [simp]: "appended_at_most_one xs xs"
  by (simp add: appended_at_most_one_def)

lemma appended_snoc [simp]: "appended_at_most_one xs (xs @ [x])"
  by (simp add: appended_at_most_one_def)

lemma accumulate_log [simp]:
  "conversationLog (fst (accumulate_and_forward e b w g)) = conversationLog g"
  by (simp add: accumulate_and_forward_def)

lemma catch_non_json_log [simp]:
  "conversationLog (fst (catch_non_json e raw g c)) = conversationLog g"
  by (simp add: catch_non_json_def case_prod_beta)

lemma dispatch_log:
  "appended_at_most_one (conversationLog g)
     (conversationLog (fst (try_catch e raw (dispatch e data g c))))"
  by (cases "kind_of (msg_type data)")
     (simp_all add: dispatch_def case_session_created_def case_session_closed_def
      case_response_created_def case_response_audio_delta_def case_response_text_delta_def
      case_response_done_def case_speech_event_def case_error_def Let_def case_prod_beta
      split: option.split)

lemma handle_event_log:
  "appended_at_most_one (conversationLog g) (conversationLog (fst (handle_event e ev g c)))"
proof (cases ev)
  case OpenAI_on_open
  then show ?thesis by (simp add: on_openai_open_def Let_def case_prod_beta)
next
  case (OpenAI_on_message b parsed)
  then show ?thesis
    using dispatch_log [of g e b _ c]
    by (simp add: on_openai_message_def split: option.split)
next
  case (OpenAI_on_error m)
  then show ?thesis by (simp add: on_openai_error_def case_prod_beta)
next
  case (OpenAI_on_close code reason)
  then show ?thesis by (simp add: on_openai_close_def case_prod_beta)
next
  case (Client_on_message m b p)
  then show ?thesis by (simp add: on_client_message_def split: RawData.split)
next
  case (Client_on_close code reason)
  then show ?thesis by (simp add: on_client_close_def case_prod_beta)
next
  case (Client_on_error m)
  then show ?thesis by (simp add: on_client_error_def case_prod_beta)
next
  case (Audio_writeFile_done err)
  then show ?thesis by (simp add: on_writeFile_done_def split: option.split)
next
  case (Transcript_writeFile_done err)
  then show ?thesis by (simp add: on_writeFile_done_def split: option.split)
qed

lemma handleNewClientConnection_log:
  "conversationLog (fst (handleNewClientConnection cfg e ip g)) =
     conversationLog g @ [\<lparr>timestamp = Date_now e, entry_type = ''connect'',
                            entry_props = [(''ip'', undefined_or_string ip)]\<rparr>]"
  by (simp add: handleNewClientConnection_def Let_def case_prod_beta)

lemma server_connection_log:
  "appended_at_most_one (conversationLog g)
     (conversationLog (fst (server_connection cfg e origin ip g)))"
  by (cases "wss_on_connection origin ip")
     (simp_all add: server_connection_def case_prod_beta handleNewClientConnection_log)

lemma process_step_log:
  "appended_at_most_one (conversationLog (shared p))
     (conversationLog (shared (fst (process_step cfg pe p))))"
proof (cases pe)
  case (Accept e origin ip)
  with server_connection_log [of "shared p" cfg e origin ip] show ?thesis
    by (simp add: case_prod_beta)
next
  case (Deliver i e ev)
  show ?thesis
  proof (cases "i < length (connections p)")
    case True
    show ?thesis
    proof (cases "connections p ! i")
      case None
      with True Deliver show ?thesis by simp
    next
      case (Some c)
      with True Deliver handle_event_log [of "shared p" e ev c] show ?thesis
        by (simp add: case_prod_beta)
    qed
  next
    case False
    with Deliver show ?thesis by simp
  qed
qed

lemma appended_take:
  "appended_at_most_one old new \<Longrightarrow> take (length old) new = old \<and> length old \<le> length new"
  by (auto simp: appended_at_most_one_def butlast_conv_take)

lemma process_run_log:
  "take (length (conversationLog (shared p))) (conversationLog (shared (process_run cfg pes p)))
     = conversationLog (shared p)
   \<and> length (conversationLog (shared p)) \<le> length (conversationLog (shared (process_run cfg pes p)))"
proof (induction pes arbitrary: p)
  case Nil
  show ?case by simp
next
  case (Cons pe pes)
  let ?p1 = "fst (process_step cfg pe p)"
  let ?l0 = "conversationLog (shared p)"
  let ?l1 = "conversationLog (shared ?p1)"
  let ?l2 = "conversationLog (shared (process_run cfg pes ?p1))"
  from appended_take [OF process_step_log [of p cfg pe]]
  have a: "take (length ?l0) ?l1 = ?l0" and b: "length ?l0 \<le> length ?l1" by simp_all
  from Cons.IH [of ?p1]
  have c: "take (length ?l1) ?l2 = ?l1" and d: "length ?l1 \<le> length ?l2" by simp_all
  have "take (length ?l0) ?l2 = take (length ?l0) (take (length ?l1) ?l2)"
    using b by (simp add: min_def)
  with a c have "take (length ?l0) ?l2 = ?l0" by simp
  with b d show ?case by simp
qed

text \<open>
  Claim C6. Every callback, and the call of \<open>handleNewClientConnection\<close>, leaves the
  conversation log as it was or adds one entry at its end. So over any sequence of accepted
  connections and callbacks of any connections in one process, the log at the start is a
  prefix of the log at the end and the length never decreases: no entry is removed or
  changed.
\<close>

theorem conversation_log_append_only:
  "appended_at_most_one (conversationLog g) (conversationLog (fst (handle_event e ev g c)))
   \<and> appended_at_most_one (conversationLog g0)
        (conversationLog (fst (handleNewClientConnection cfg e0 ip g0)))
   \<and> take (length (conversationLog (shared p)))
        (conversationLog (shared (process_run cfg pes p))) = conversationLog (shared p)
   \<and> length (conversationLog (shared p))
        \<le> length (conversationLog (shared (process_run cfg pes p)))"
  using handle_event_log [of g e ev c] process_run_log [of p cfg pes]
  by (simp add: handleNewClientConnection_log)

theorem conversation_log_witness:
  "appended_at_most_one (conversationLog initial_globals)
     (conversationLog (fst (handle_event (env_with OPEN OPEN) (Client_on_error ''reset'')
        initial_globals live_conn)))
   \<and> appended_at_most_one (conversationLog initial_globals)
        (conversationLog (fst (handleNewClientConnection example_config
           (env_with OPEN CONNECTING) None initial_globals)))
   \<and> take (length (conversationLog (shared initial_process)))
        (conversationLog (shared (process_run example_config
           [Accept (env_with OPEN CONNECTING) None None,
            Deliver 0 (env_with OPEN OPEN) OpenAI_on_open,
            Deliver 0 (env_with OPEN OPEN) (Client_on_close 1000 [])] initial_process)))
      = conversationLog (shared initial_process)
   \<and> length (conversationLog (shared initial_process))
        \<le> length (conversationLog (shared (process_run example_config
           [Accept (env_with OPEN CONNECTING) None None,
            Deliver 0 (env_with OPEN OPEN) OpenAI_on_open,
            Deliver 0 (env_with OPEN OPEN) (Client_on_close 1000 [])] initial_process)))"
  by (rule conversation_log_append_only)

section \<open>Failure of a file write\<close>

text \<open>A write that fails after it has started reports to its completion callback, which
  prints one \<open>console.error\<close> and does nothing else.\<close>

lemma writeFile_done_step:
  "on_writeFile_done failed saved err g c =
     (g, c, [Console (if err = None then console_log else console_error)
               (if err = None then saved else failed)])"
  by (cases err) (simp_all add: on_writeFile_done_def)

lemma write_completion_failure_only_logs:
  "handle_event e (Audio_writeFile_done (Some err)) g c =
     (g, c, [Console console_error ''Error saving backend audio file''])
   \<and> handle_event e (Transcript_writeFile_done (Some err)) g c =
     (g, c, [Console console_error ''Error saving transcript file''])"
  by (simp add: writeFile_done_step)

lemma example_session_actions:
  "actions (effects (example_session events)) =
     [NewWebSocket (WEBSOCKET_URL_WITH_MODEL (OPENAI_CONFIG example_config))
        (headers example_config),
      OpenAI_send (JsonFrame (sessionUpdateEvent 1700000000000))]
     @ actions (effects (run events (fst (example_session [])) live_conn))"
  by (simp add: example_session_def session_def handleNewClientConnection_def Let_def
      on_openai_open_def live_conn_def actions_def effects_def case_prod_beta)

text \<open>
  Claim C7. A failing file write on \<open>response.done\<close> should change nothing but the console
  output. That holds for the audio write, which sits in a \<open>try\<close> of its own, and for
  failures reported to the completion callbacks. The transcript write has no \<open>try\<close> of
  its own. On an opened connection with the client OPEN, take one response whose id
  contains a NUL character and whose \<open>response.done\<close> carries the text \<open>Hello\<close>, in a
  non-empty raw buffer. With the id \<open>resp_1\<close> the client gets \<open>AIResponseStart\<close> and then
  \<open>AIResponseEnd\<close>. With the NUL the transcript write throws, the exception reaches the
  \<open>catch\<close> of the message callback, and the client gets the raw JSON text of the event as a
  binary audio frame and no \<open>AIResponseEnd\<close>. The same id on an audio write (one delta, no
  text) only adds a console line: the client still gets \<open>AIResponseEnd\<close>.
\<close>

theorem transcript_write_failure_reaches_client:
  "actions (effects (example_session
       (one_response ''resp_1'' [] (b # raw) (response_done_with_text ''Hello'')))) =
     [NewWebSocket (WEBSOCKET_URL_WITH_MODEL (OPENAI_CONFIG example_config))
        (headers example_config),
      OpenAI_send (JsonFrame (sessionUpdateEvent 1700000000000)),
      Client_send (JsonFrame [(''type'', JString ''event''), (''name'', JString ''AIResponseStart'')]),
      Fs_writeFile (transcriptsDir @ [''2023-11-14T22-13-20_resp_1_transcript.txt''])
        (FileText ''Hello''),
      Client_send (JsonFrame [(''type'', JString ''event''), (''name'', JString ''AIResponseEnd''),
                              (''finalText'', JString ''Hello'')])]
   \<and> writeFile_throws
        (transcriptsDir @ [''2023-11-14T22-13-20_'' @ nul_id @ ''_transcript.txt''])
   \<and> actions (effects (example_session
        (one_response nul_id [] (b # raw) (response_done_with_text ''Hello'')))) =
     [NewWebSocket (WEBSOCKET_URL_WITH_MODEL (OPENAI_CONFIG example_config))
        (headers example_config),
      OpenAI_send (JsonFrame (sessionUpdateEvent 1700000000000)),
      Client_send (JsonFrame [(''type'', JString ''event''), (''name'', JString ''AIResponseStart'')]),
      Fs_writeFile (transcriptsDir @ [''2023-11-14T22-13-20_'' @ nul_id @ ''_transcript.txt''])
        (FileText ''Hello''),
      Client_send (BinaryFrame (b # raw))]
   \<and> writeFile_throws (audioSaveDir @ [nul_id @ ''_backend.raw''])
   \<and> actions (effects (example_session
        (one_response nul_id [''AAAA''] (b # raw) (message_of_type ''response.done'')))) =
     [NewWebSocket (WEBSOCKET_URL_WITH_MODEL (OPENAI_CONFIG example_config))
        (headers example_config),
      OpenAI_send (JsonFrame (sessionUpdateEvent 1700000000000)),
      Client_send (JsonFrame [(''type'', JString ''event''), (''name'', JString ''AIResponseStart'')]),
      Client_send (BinaryFrame [0, 0, 0]),
      Fs_writeFile (audioSaveDir @ [nul_id @ ''_backend.raw'']) (FileBytes [0, 0, 0]),
      Client_send (JsonFrame [(''type'', JString ''event''), (''name'', JString ''AIResponseEnd''),
                              (''finalText'', JString [])])]"
proof -
  have created: "\<And>rid raw1 g. rid \<noteq> [] \<Longrightarrow>
      on_openai_message (env_with OPEN OPEN) raw1 (Some (response_created rid)) g live_conn =
        (g\<lparr>currentResponseId := Some rid, currentResponseAudioChunks := []\<rparr>,
         live_conn\<lparr>turnInProgress := True\<rparr>,
         [Console console_log ''OpenAI response generation started.'',
          Client_send (JsonFrame [(''type'', JString ''event''),
                                  (''name'', JString ''AIResponseStart'')])])"
    by (simp add: on_openai_message_handled dispatch_def case_response_created_def
        response_created_def message_of_type_def Let_def or_else_def send_if_open_def)
  have h: "handled (live_conn\<lparr>turnInProgress := True\<rparr>)"
    by (simp add: handled_def)
  have no_text: "finalAssistantText (message_of_type ''response.done'') = []"
    by (simp add: finalAssistantText_def message_of_type_def)
  have stamp: "\<And>rid. transcriptFilePath (env_with OPEN OPEN) rid =
      transcriptsDir @ [''2023-11-14T22-13-20_'' @ rid @ ''_transcript.txt'']"
    by (simp add: transcriptFilePath_def timestamp_example)
  show ?thesis
    by (simp only: example_session_actions)
       (simp add: one_response_def created no_text [unfolded message_of_type_def]
        on_openai_message_handled [OF h] dispatch_def case_response_done_def
        case_response_audio_delta_def accumulate_and_forward_def catch_non_json_def
        audio_delta_def message_of_type_def decode_example
        save_audio_def stamp writeFile_throws_def transcriptsDir_def
        Let_def actions_def effects_def or_else_def truthy_def send_if_open_def
        case_prod_beta)
qed

section \<open>The credential header of the upstream connection\<close>

lemma load_config_key:
  assumes "load_config process_env = Some cfg" and "process_env ''OPENAI_API_KEY'' = Some key"
  shows "OPENAI_API_KEY cfg = key"
    and "WEBSOCKET_URL_WITH_MODEL (OPENAI_CONFIG cfg) =
           ''wss://api.openai.com/v1/realtime?model=gpt-4o-mini-realtime-preview-2024-12-17''"
  using assms by (auto simp: load_config_def OPENAI_CONFIG_BASE_def split: if_splits)

lemma load_example_config: "load_config example_process_env = Some example_config"
  by (simp add: load_config_def example_process_env_def example_config_def OPENAI_CONFIG_BASE_def)

lemma server_connection_opens:
  "set (filter opens_upstream (effects (server_connection cfg e origin ip g))) \<subseteq>
     {NewWebSocket (WEBSOCKET_URL_WITH_MODEL (OPENAI_CONFIG cfg)) (headers cfg)}"
proof (cases "wss_on_connection origin ip")
  case (Bridge ip')
  with handleNewClientConnection_opens [of cfg e ip' g] show ?thesis
    by (simp add: server_connection_def effects_def case_prod_beta)
next
  case (Reject code reason)
  then show ?thesis by (simp add: server_connection_def effects_def)
qed

lemma process_step_opens:
  "set (filter opens_upstream (snd (process_step cfg pe p))) \<subseteq>
     {NewWebSocket (WEBSOCKET_URL_WITH_MODEL (OPENAI_CONFIG cfg)) (headers cfg)}"
proof (cases pe)
  case (Accept e origin ip)
  with server_connection_opens [of cfg e origin ip "shared p"] show ?thesis
    by (simp add: effects_def case_prod_beta)
next
  case (Deliver i e ev)
  show ?thesis
  proof (cases "i < length (connections p)")
    case True
    show ?thesis
    proof (cases "connections p ! i")
      case None
      with True Deliver show ?thesis by simp
    next
      case (Some c)
      with True Deliver handle_event_no_open [of e ev "shared p" c] show ?thesis
        by (simp add: effects_def case_prod_beta)
    qed
  next
    case False
    with Deliver show ?thesis by simp
  qed
qed

text \<open>
  Claim C8. With the configuration loaded from the process environment, every upstream
  socket is constructed with the fixed URL and exactly two headers: \<open>Authorization\<close>,
  which is \<open>Bearer\<close>, a space and the configured API key, and \<open>OpenAI-Beta\<close>, which is
  \<open>realtime=v1\<close>. This holds for the call of \<open>handleNewClientConnection\<close> with any
  client address, environment and module state, and for every step of a process serving
  any number of connections: nothing of the connection or the client enters the headers.
\<close>

theorem upstream_headers_static:
  assumes "load_config process_env = Some cfg"
    and "process_env ''OPENAI_API_KEY'' = Some key"
  shows "filter opens_upstream (effects (handleNewClientConnection cfg e ip g)) =
           [NewWebSocket
              ''wss://api.openai.com/v1/realtime?model=gpt-4o-mini-realtime-preview-2024-12-17''
              [(''Authorization'', ''Bearer '' @ key), (''OpenAI-Beta'', ''realtime=v1'')]]
         \<and> set (filter opens_upstream (snd (process_step cfg pe p))) \<subseteq>
           {NewWebSocket
              ''wss://api.openai.com/v1/realtime?model=gpt-4o-mini-realtime-preview-2024-12-17''
              [(''Authorization'', ''Bearer '' @ key), (''OpenAI-Beta'', ''realtime=v1'')]}"
  using handleNewClientConnection_opens [of cfg e ip g] process_step_opens [of cfg pe p]
    load_config_key [OF assms]
  by (simp add: headers_def)

theorem upstream_headers_static_witness:
  "filter opens_upstream
     (effects (handleNewClientConnection example_config (env_with OPEN CONNECTING)
        (Some ''10.0.0.7'') initial_globals)) =
     [NewWebSocket
        ''wss://api.openai.com/v1/realtime?model=gpt-4o-mini-realtime-preview-2024-12-17''
        [(''Authorization'', ''Bearer sk-test''), (''OpenAI-Beta'', ''realtime=v1'')]]
   \<and> set (filter opens_upstream
          (snd (process_step example_config
             (Accept (env_with OPEN CONNECTING) None (Some ''10.0.0.8'')) initial_process))) \<subseteq>
     {NewWebSocket
        ''wss://api.openai.com/v1/realtime?model=gpt-4o-mini-realtime-preview-2024-12-17''
        [(''Authorization'', ''Bearer sk-test''), (''OpenAI-Beta'', ''realtime=v1'')]}"
  using upstream_headers_static [OF load_example_config, of "''sk-test''"
          "env_with OPEN CONNECTING" "Some ''10.0.0.7''" initial_globals
          "Accept (env_with OPEN CONNECTING) None (Some ''10.0.0.8'')" initial_process]
  by (simp add: example_process_env_def)

section \<open>Client messages while the upstream socket is absent or not OPEN\<close>

text \<open>
  Claim C9. A message from the client that arrives while the variable \<open>wsOpenAI\<close> is
  \<open>null\<close> or the upstream socket is not in the OPEN state is dropped: the callback sends
  nothing upstream, stores nothing, leaves the module variables and the connection state
  as they were, and only prints one warning.
\<close>

theorem client_message_dropped_when_upstream_not_open:
  assumes "wsOpenAI c = None \<or> openai_readyState e \<noteq> OPEN"
  shows "on_client_message e message isBinary parses g c =
           (g, c, [Console console_warn
                     ''Received client message, but OpenAI WebSocket is not ready or null.''])"
  using assms by (auto simp: on_client_message_def)

theorem client_message_dropped_witness:
  "on_client_message (env_with OPEN CLOSING) (NodeBuffer [1, 2, 3]) True False
      initial_globals live_conn =
     (initial_globals, live_conn,
       [Console console_warn
          ''Received client message, but OpenAI WebSocket is not ready or null.''])"
  using client_message_dropped_when_upstream_not_open
          [of live_conn "env_with OPEN CLOSING" "NodeBuffer [1, 2, 3]" True False initial_globals]
  by (simp add: env_with_def)

section \<open>The origin check of the server\<close>

lemma wss_on_connection_js_eq: "wss_on_connection_js origin ip = wss_on_connection origin ip"
  by (auto simp: wss_on_connection_js_def wss_on_connection_def corsOptions_origin_def)

text \<open>
  Claim C10, as stated, fails for an \<open>Origin\<close> header that is present and empty: the
  empty string is not in the list of allowed origins, yet \<open>!origin\<close> holds for it and the
  connection is passed to \<open>handleNewClientConnection\<close>, in both versions of the server.
\<close>

theorem empty_origin_is_bridged:
  "[] \<notin> set allowedOrigins
   \<and> wss_on_connection (Some []) (Some ''203.0.113.9'') = Bridge (Some ''203.0.113.9'')
   \<and> wss_on_connection_js (Some []) (Some ''203.0.113.9'') = Bridge (Some ''203.0.113.9'')"
  by (simp add: wss_on_connection_def wss_on_connection_js_def corsOptions_origin_def
      not_origin_def includes_origin_def allowedOrigins_def)

text \<open>
  Claim C10, amended. A connection whose \<open>Origin\<close> header is a non-empty string that is
  not in the list of allowed origins is closed with code 1008 and gets no connection state
  (\<open>handleNewClientConnection\<close> is not called). A connection with no \<open>Origin\<close> header,
  with an empty one, or with an allowed origin is passed to \<open>handleNewClientConnection\<close>.
  Both versions of the server decide alike.
\<close>

theorem origin_check:
  "(origin = Some s \<and> s \<noteq> [] \<and> s \<notin> set allowedOrigins \<longrightarrow>
      wss_on_connection origin ip = Reject 1008 ''Origin not allowed''
      \<and> wss_on_connection_js origin ip = Reject 1008 ''Origin not allowed''
      \<and> server_connection cfg e origin ip g =
          (g, None, [Console console_warn ''Rejected WebSocket connection due to CORS policy.'',
                     Client_close 1008 ''Origin not allowed'']))
   \<and> (origin = None \<or> origin = Some [] \<or> (origin = Some s \<and> s \<in> set allowedOrigins) \<longrightarrow>
      wss_on_connection origin ip = Bridge ip
      \<and> wss_on_connection_js origin ip = Bridge ip
      \<and> server_connection cfg e origin ip g =
          (case handleNewClientConnection cfg e ip g of
             (g1, c, fx) \<Rightarrow> (g1, c, Console console_log ''New client connection allowed'' # fx)))"
  by (auto simp: wss_on_connection_def wss_on_connection_js_def corsOptions_origin_def
      not_origin_def includes_origin_def server_connection_def)

theorem origin_check_witness:
  "wss_on_connection (Some ''http://evil.example'') None = Reject 1008 ''Origin not allowed''
   \<and> wss_on_connection_js (Some ''http://evil.example'') None = Reject 1008 ''Origin not allowed''
   \<and> wss_on_connection (Some ''http://localhost:5173'') None = Bridge None
   \<and> wss_on_connection None (Some ''127.0.0.1'') = Bridge (Some ''127.0.0.1'')"
  using origin_check [of "Some ''http://evil.example''" "''http://evil.example''" None]
    origin_check [of "Some ''http://localhost:5173''" "''http://localhost:5173''" None]
    origin_check [of None "[]" "Some ''127.0.0.1''"]
  by (simp add: allowedOrigins_def)

end
